theory Spec2Isabelle
  imports Complex_Main "HOL-Library.Char_ord" "HOL-Library.List_Lexorder"
begin

section \<open>Data model (types.ts)\<close>

text \<open>
  The \<^verbatim>\<open>Alarm\<close> interface of the newest variant of \<^verbatim>\<open>types.ts\<close>, split into the
  part the editor produces (\<^verbatim>\<open>Omit<Alarm, 'id'>\<close>, here \<open>AlarmDraft\<close>) and the \<^verbatim>\<open>id\<close> the
  application adds. Optional fields
  (\<^verbatim>\<open>field?: T\<close>) are options, \<open>None\<close> standing for \<^verbatim>\<open>undefined\<close>. The older variant of
  the interface has no \<^verbatim>\<open>endTime\<close> and no \<^verbatim>\<open>type\<close>; its records are the ones with both
  fields \<open>None\<close>. Strings are compared the way JavaScript compares them, code unit by code
  unit, a proper prefix being smaller: the lexicographic order on \<^typ>\<open>string\<close>.
\<close>

datatype ItemType = alarm | event

record DateRange =
  dr_from :: string
  dr_to :: string

record AlarmDraft =
  time :: string
  endTime :: "string option"
  label :: string
  description :: "string option"
  specificDates :: "string list option"
  dateRange :: "DateRange option"
  repeatDays :: "nat list option"
  isEnabled :: bool
  soundId :: string
  isAiEnabled :: "bool option"
  itemType :: "ItemType option"

record Alarm = AlarmDraft +
  alarmId :: string

record SoundAsset =
  sa_id :: string
  sa_name :: string
  sa_url :: string
  isCustom :: bool

section \<open>The Date object, as far as the scheduler reads it\<close>

text \<open>
  \<^verbatim>\<open>new Date(dateKey)\<close> on a date-only ISO string \<^verbatim>\<open>YYYY-MM-DD\<close> is the time value of
  that day's midnight in UTC; \<^verbatim>\<open>getDay()\<close> is the weekday of that instant in the host's
  local time. The definitions follow ECMAScript's \<^verbatim>\<open>DayFromYear\<close>, \<^verbatim>\<open>MakeDay\<close>,
  \<^verbatim>\<open>Day\<close>, \<^verbatim>\<open>WeekDay\<close> and \<^verbatim>\<open>LocalTime\<close>; the host's offset from UTC in milliseconds
  (\<^verbatim>\<open>LocalTZA\<close>) is a parameter. A string that is not a calendar date in the fixed-width
  format is an invalid Date here (time value \<^verbatim>\<open>NaN\<close>, modelled as \<open>None\<close>).
\<close>

definition msPerDay :: int where
  "msPerDay = 86400000"

definition isDigit :: "char \<Rightarrow> bool" where
  "isDigit c = (CHR ''0'' \<le> c \<and> c \<le> CHR ''9'')"

definition digitVal :: "char \<Rightarrow> nat" where
  "digitVal c = of_char c - 48"

definition inLeapYear :: "int \<Rightarrow> bool" where
  "inLeapYear y = (y mod 4 = 0 \<and> (y mod 100 \<noteq> 0 \<or> y mod 400 = 0))"

definition daysInMonth :: "int \<Rightarrow> nat \<Rightarrow> nat" where
  "daysInMonth y m =
     (if m = 2 then (if inLeapYear y then 29 else 28)
      else if m = 4 \<or> m = 6 \<or> m = 9 \<or> m = 11 then 30 else 31)"

definition dayFromYear :: "int \<Rightarrow> int" where
  "dayFromYear y =
     365 * (y - 1970) + (y - 1969) div 4 - (y - 1901) div 100 + (y - 1601) div 400"

definition daysBeforeMonth :: "int \<Rightarrow> nat \<Rightarrow> int" where
  "daysBeforeMonth y m =
     int ([0, 31, 59, 90, 120, 151, 181, 212, 243, 273, 304, 334] ! (m - 1))
       + (if 3 \<le> m \<and> inLeapYear y then 1 else 0)"

definition makeDay :: "int \<Rightarrow> nat \<Rightarrow> nat \<Rightarrow> int" where
  "makeDay y m d = dayFromYear y + daysBeforeMonth y m + int d - 1"

fun parseDateKey :: "string \<Rightarrow> (int \<times> nat \<times> nat) option" where
  "parseDateKey [y1, y2, y3, y4, s1, m1, m2, s2, d1, d2] =
     (if isDigit y1 \<and> isDigit y2 \<and> isDigit y3 \<and> isDigit y4 \<and> s1 = CHR ''-''
         \<and> isDigit m1 \<and> isDigit m2 \<and> s2 = CHR ''-'' \<and> isDigit d1 \<and> isDigit d2
      then
        (let y = int (1000 * digitVal y1 + 100 * digitVal y2 + 10 * digitVal y3 + digitVal y4);
             m = 10 * digitVal m1 + digitVal m2;
             d = 10 * digitVal d1 + digitVal d2
         in if 1 \<le> m \<and> m \<le> 12 \<and> 1 \<le> d \<and> d \<le> daysInMonth y m
            then Some (y, m, d) else None)
      else None)"
| "parseDateKey _ = None"

definition newDate :: "string \<Rightarrow> int option" where
  "newDate dateKey =
     (case parseDateKey dateKey of
        None \<Rightarrow> None
      | Some (y, m, d) \<Rightarrow> Some (makeDay y m d * msPerDay))"

definition weekDay :: "int \<Rightarrow> nat" where
  "weekDay t = nat ((t div msPerDay + 4) mod 7)"

definition getDay :: "int \<Rightarrow> int option \<Rightarrow> nat option" where
  "getDay tza d = (case d of None \<Rightarrow> None | Some t \<Rightarrow> Some (weekDay (t + tza)))"

section \<open>The recurrence matcher\<close>

text \<open>
  \<^verbatim>\<open>
  const isAlarmOnDate = (a: Alarm, dateKey: string) => {
    const d = new Date(dateKey);
    const dayOfWeek = d.getDay();
    if (a.specificDates?.includes(dateKey)) return true;
    if (a.dateRange && dateKey >= a.dateRange.from && dateKey <= a.dateRange.to) return true;
    if (a.repeatDays?.includes(dayOfWeek as any)) return true;
    return false;
  };
  \<close>
  The same text stands in every variant of \<^verbatim>\<open>App.tsx\<close>. An invalid Date has the weekday
  \<^verbatim>\<open>NaN\<close>, which no list of weekdays includes.
\<close>

definition isAlarmOnDate :: "int \<Rightarrow> 'a AlarmDraft_scheme \<Rightarrow> string \<Rightarrow> bool" where
  "isAlarmOnDate tza a dateKey =
     (let d = newDate dateKey;
          dayOfWeek = getDay tza d
      in if (case specificDates a of None \<Rightarrow> False | Some ds \<Rightarrow> dateKey \<in> set ds) then True
         else if (case dateRange a of None \<Rightarrow> False
                  | Some r \<Rightarrow> dr_from r \<le> dateKey \<and> dateKey \<le> dr_to r) then True
         else if (case repeatDays a of None \<Rightarrow> False
                  | Some ws \<Rightarrow> (case dayOfWeek of None \<Rightarrow> False | Some w \<Rightarrow> w \<in> set ws))
              then True
         else False)"

text \<open>
  The weekday of a calendar date, as the specification's \<^verbatim>\<open>weekdayOf\<close>: the weekday of
  the date itself (0 = Sunday), which is what \<^verbatim>\<open>getDay\<close> reads in a host on UTC.
\<close>

definition weekdayOf :: "string \<Rightarrow> nat option" where
  "weekdayOf dateKey =
     (case parseDateKey dateKey of
        None \<Rightarrow> None
      | Some (y, m, d) \<Rightarrow> Some (nat ((makeDay y m d + 4) mod 7)))"

definition matchesSpec :: "'a AlarmDraft_scheme \<Rightarrow> string \<Rightarrow> bool" where
  "matchesSpec a dateKey =
     ((case specificDates a of None \<Rightarrow> False | Some ds \<Rightarrow> dateKey \<in> set ds)
      \<or> (case dateRange a of None \<Rightarrow> False
          | Some r \<Rightarrow> dr_from r \<le> dateKey \<and> dateKey \<le> dr_to r)
      \<or> (case repeatDays a of None \<Rightarrow> False
          | Some ws \<Rightarrow> (case weekdayOf dateKey of None \<Rightarrow> False | Some w \<Rightarrow> w \<in> set ws)))"

section \<open>Host environment, clock reading, sounds\<close>

text \<open>
  What the handlers read from the browser: the offset of local time from UTC,
  \<^verbatim>\<open>navigator.onLine\<close>, whether \<^verbatim>\<open>navigator.vibrate\<close> exists, whether notifications are
  granted, whether an \<^verbatim>\<open>AudioContext\<close> can be had (its constructor throws otherwise), and the
  custom sounds in local storage.
\<close>

record Env =
  localTZA :: int
  onLine :: bool
  canVibrate :: bool
  notificationGranted :: bool
  audioContextOk :: bool
  storedCustomSounds :: "SoundAsset list"

text \<open>
  One reading of \<^verbatim>\<open>new Date()\<close>. \<^verbatim>\<open>toISOString()\<close> is the UTC rendering; the getters are
  local time. The tick reads \<^verbatim>\<open>toISOString\<close>, \<^verbatim>\<open>getHours\<close>, \<^verbatim>\<open>getMinutes\<close> and
  \<^verbatim>\<open>getSeconds\<close>; the three getters of the local calendar date (\<^verbatim>\<open>getMonth\<close> counts from 0)
  are not read by it and say which day it is for the user.
\<close>

record JsDate =
  toISOString :: string
  getFullYear :: nat
  getMonth :: nat
  getDate :: nat
  getHours :: nat
  getMinutes :: nat
  getSeconds :: nat

definition formatDateKey :: "JsDate \<Rightarrow> string" where
  "formatDateKey date = takeWhile (\<lambda>c. c \<noteq> CHR ''T'') (toISOString date)"

definition digitChar :: "nat \<Rightarrow> char" where
  "digitChar n = ''0123456789'' ! n"

fun toString :: "nat \<Rightarrow> string" where
  "toString n = (if n < 10 then [digitChar n] else toString (n div 10) @ [digitChar (n mod 10)])"

definition padStart2 :: "string \<Rightarrow> string" where
  "padStart2 s = replicate (2 - length s) (CHR ''0'') @ s"

definition currentTimeStr :: "JsDate \<Rightarrow> string" where
  "currentTimeStr now = padStart2 (toString (getHours now)) @ '':'' @ padStart2 (toString (getMinutes now))"

definition secondKey :: "JsDate \<Rightarrow> string" where
  "secondKey now = formatDateKey now @ ''-'' @ currentTimeStr now"

text \<open>
  Today's date as the specification means it (\<^verbatim>\<open>today\<close>): the local calendar date of the
  reading, written as a date key. An alarm is due at a reading when it is enabled, its time
  is the current minute and its recurrence rule, as the specification states it, matches
  today's date.
\<close>

definition padStart4 :: "string \<Rightarrow> string" where
  "padStart4 s = replicate (4 - length s) (CHR ''0'') @ s"

definition localDateKey :: "JsDate \<Rightarrow> string" where
  "localDateKey now =
     padStart4 (toString (getFullYear now)) @ ''-'' @ padStart2 (toString (getMonth now + 1))
       @ ''-'' @ padStart2 (toString (getDate now))"

definition isDue :: "JsDate \<Rightarrow> 'a AlarmDraft_scheme \<Rightarrow> bool" where
  "isDue now a =
     (isEnabled a \<and> time a = currentTimeStr now \<and> matchesSpec a (localDateKey now))"

text \<open>
  The tick takes \<^verbatim>\<open>formatDateKey(now)\<close>, the UTC date, for today and hands it to the
  matcher, which reads the weekday in local time. The two agree with today's date and its
  weekday in a host at or ahead of UTC, at a reading whose UTC date is the local date.
\<close>

definition dateConsistent :: "Env \<Rightarrow> JsDate \<Rightarrow> bool" where
  "dateConsistent env now =
     (0 \<le> localTZA env \<and> localTZA env < msPerDay \<and> formatDateKey now = localDateKey now)"

definition DEFAULT_SOUNDS :: "SoundAsset list" where
  "DEFAULT_SOUNDS =
     [\<lparr>sa_id = ''classic'', sa_name = ''Classic Beep'',
        sa_url = ''https://actions.google.com/sounds/v1/alarms/beep_short.ogg'', isCustom = False\<rparr>,
      \<lparr>sa_id = ''mellow'', sa_name = ''Mellow Chime'',
        sa_url = ''https://actions.google.com/sounds/v1/alarms/digital_watch_alarm_long.ogg'', isCustom = False\<rparr>,
      \<lparr>sa_id = ''morning'', sa_name = ''Morning Dew'',
        sa_url = ''https://actions.google.com/sounds/v1/alarms/alarm_clock_ringing.ogg'', isCustom = False\<rparr>,
      \<lparr>sa_id = ''zen'', sa_name = ''Zen Bowl'',
        sa_url = ''https://actions.google.com/sounds/v1/alarms/spaceship_alarm.ogg'', isCustom = False\<rparr>]"

definition resolveSound :: "Env \<Rightarrow> string \<Rightarrow> SoundAsset" where
  "resolveSound env sid =
     (case List.find (\<lambda>s. sa_id s = sid) (DEFAULT_SOUNDS @ storedCustomSounds env) of
        Some s \<Rightarrow> s
      | None \<Rightarrow> hd DEFAULT_SOUNDS)"

section \<open>Application state and side effects\<close>

text \<open>
  The \<^verbatim>\<open><audio>\<close> element behind \<^verbatim>\<open>alarmAudioRef\<close> (the playback position is left out), and
  the state and refs of the \<^verbatim>\<open>App\<close> component that the scheduler touches. Two variants of
  \<^verbatim>\<open>App.tsx\<close> are modelled on the same record: the variant with events, vibration and
  \<^verbatim>\<open>ringingAlarmRef\<close> (handlers with suffix 2) and the variant with the volume ramp
  (suffix 1), whose \<^verbatim>\<open>triggeredAlarmsRef\<close> is the field \<open>triggeredItems\<close>.
  \<open>weather\<close> is the weather last fetched (the \<^verbatim>\<open>WeatherInfo\<close> interface of \<^verbatim>\<open>App.tsx\<close>),
  \<open>currentAiSource\<close> names the alarm whose narration is playing, \<open>eventNotification\<close>
  holds the label of the banner (its time text is left out), and the two interval fields say
  whether the vibration and the ramp timers are set.
\<close>

record AudioEl =
  src :: string
  loop :: bool
  paused :: bool
  volume :: real

record WeatherInfo =
  temp :: real
  condition :: string
  emoji :: string
  location :: string

record AppState =
  alarms :: "Alarm list"
  weather :: "WeatherInfo option"
  ringingAlarm :: "Alarm option"
  ringingAlarmRef :: "Alarm option"
  eventNotification :: "string option"
  triggeredItems :: "string set"
  alarmAudio :: "AudioEl option"
  currentAiSource :: "Alarm option"
  vibrationInterval :: bool
  rampInterval :: bool

text \<open>
  What a narration request is built from, beside the alarm itself. \<^verbatim>\<open>playAiGreeting\<close>
  takes the class of the hour, the events of the day, the other items of the day and the
  weather; \<^verbatim>\<open>playImmediateAiGreeting\<close> takes all items of the day and the weather. An item
  enters the prompt as \<^verbatim>\<open>`${a.label} at ${formatTimeDisplay(a.time, use24Hour)}`\<close>: here as
  the pair of its label and its time, the rendering being left out.
\<close>

datatype GreetingPrompt =
    AiGreetingPrompt string "(string \<times> string) list" "(string \<times> string) list"
      "WeatherInfo option"
  | ImmediateGreetingPrompt "(string \<times> string) list" "WeatherInfo option"

text \<open>
  What a handler does to the outside: playing the looped alarm sound from a URL, a call of
  \<^verbatim>\<open>navigator.vibrate\<close> with its pattern, a system notification for an event (by its
  label), the event tone, the start of a narration request for an alarm with its prompt,
  the start and the stop of a narration's playback, and an error written to the console.
\<close>

datatype Effect =
    AudioPlay string
  | Vibrate "nat list"
  | Notify string
  | Chime
  | RequestGreeting Alarm GreetingPrompt
  | NarrationStart Alarm
  | NarrationStop
  | LogError

text \<open>
  How a narration request ends: the text request rejects, the speech request rejects, the
  response carries no audio data, decoding the audio or setting up its playback throws, or
  the audio is ready. Every end but the last is a failure of the narration: the first two
  are the network, API and synthesis errors, the next two the malformed responses.
\<close>

datatype GreetingOutcome = GreetingRejected | TtsRejected | NoAudioData | DecodeFailed | AudioReady

definition isFailure :: "GreetingOutcome \<Rightarrow> bool" where
  "isFailure out =
     (out = GreetingRejected \<or> out = TtsRejected \<or> out = NoAudioData \<or> out = DecodeFailed)"

text \<open>
  The start of \<^verbatim>\<open>playAiGreeting(alarm)\<close>, up to its first request:
  \<^verbatim>\<open>
  const todayKey = formatDateKey(new Date());
  const now = new Date();
  const hour = now.getHours();
  let timeOfDay = hour < 12 ? "morning" : hour < 17 ? "afternoon" : hour < 21 ? "evening" : "night";
  const urgentEvents = alarms
    .filter(a => isAlarmOnDate(a, todayKey) && a.type === 'event')
    .map(a => `${a.label} at ${formatTimeDisplay(a.time, use24Hour)}`).join(", ");
  const regularAlarms = alarms
    .filter(a => isAlarmOnDate(a, todayKey) && a.type !== 'event')
    .map(a => `${a.label} at ${formatTimeDisplay(a.time, use24Hour)}`).join(", ");
  \<close>
  and of \<^verbatim>\<open>playImmediateAiGreeting(alarm)\<close>:
  \<^verbatim>\<open>
  const todayKey = formatDateKey(new Date());
  const todaysEvents = alarms
    .filter(a => isAlarmOnDate(a, todayKey))
    .map(a => `${a.label} at ${formatTimeDisplay(a.time, use24Hour)}`).join(", ");
  \<close>
  Both run inside the tick, at second 0, so their \<^verbatim>\<open>new Date()\<close> is the reading of the
  tick. The prompt also names \<^verbatim>\<open>weather\<close> and the alarm's label.
\<close>

definition greetingTimeOfDay :: "nat \<Rightarrow> string" where
  "greetingTimeOfDay hour =
     (if hour < 12 then ''morning'' else if hour < 17 then ''afternoon''
      else if hour < 21 then ''evening'' else ''night'')"

definition agendaEntry :: "Alarm \<Rightarrow> string \<times> string" where
  "agendaEntry a = (label a, time a)"

definition aiGreetingPrompt :: "Env \<Rightarrow> JsDate \<Rightarrow> AppState \<Rightarrow> GreetingPrompt" where
  "aiGreetingPrompt env now s =
     (let todayKey = formatDateKey now;
          timeOfDay = greetingTimeOfDay (getHours now);
          urgentEvents =
            map agendaEntry
              (filter (\<lambda>a. isAlarmOnDate (localTZA env) a todayKey \<and> itemType a = Some event)
                 (alarms s));
          regularAlarms =
            map agendaEntry
              (filter (\<lambda>a. isAlarmOnDate (localTZA env) a todayKey \<and> itemType a \<noteq> Some event)
                 (alarms s))
      in AiGreetingPrompt timeOfDay urgentEvents regularAlarms (weather s))"

definition immediateGreetingPrompt :: "Env \<Rightarrow> JsDate \<Rightarrow> AppState \<Rightarrow> GreetingPrompt" where
  "immediateGreetingPrompt env now s =
     (let todayKey = formatDateKey now;
          todaysEvents =
            map agendaEntry (filter (\<lambda>a. isAlarmOnDate (localTZA env) a todayKey) (alarms s))
      in ImmediateGreetingPrompt todaysEvents (weather s))"

section \<open>The variant with events (handlers 2)\<close>

text \<open>
  The effect \<^verbatim>\<open>useEffect(() => { ringingAlarmRef.current = ringingAlarm; }, [ringingAlarm])\<close>
  runs after every render that changed \<^verbatim>\<open>ringingAlarm\<close>; each handler below ends with it.
\<close>

definition syncRef2 :: "AppState \<Rightarrow> AppState" where
  "syncRef2 s = s\<lparr>ringingAlarmRef := ringingAlarm s\<rparr>"

text \<open>
  \<^verbatim>\<open>playEventChime(label)\<close>: everything is inside one \<^verbatim>\<open>try\<close>; when no audio context can
  be had, the \<^verbatim>\<open>catch\<close> logs and nothing else happens. Otherwise the tone, a single
  vibration of 400 ms where supported, a notification where granted, and the banner.
\<close>

definition playEventChime :: "Env \<Rightarrow> string \<Rightarrow> AppState \<Rightarrow> AppState \<times> Effect list" where
  "playEventChime env lbl s =
     (if \<not> audioContextOk env then (s, [LogError])
      else (s\<lparr>eventNotification := Some lbl\<rparr>,
            [Chime] @ (if canVibrate env then [Vibrate [400]] else [])
                    @ (if notificationGranted env then [Notify lbl] else [])))"

definition startAlarmVibration :: "Env \<Rightarrow> AppState \<Rightarrow> AppState \<times> Effect list" where
  "startAlarmVibration env s =
     (if canVibrate env then (s\<lparr>vibrationInterval := True\<rparr>, [Vibrate [400, 200, 400]])
      else (s, []))"

definition stopVibration :: "Env \<Rightarrow> AppState \<Rightarrow> AppState \<times> Effect list" where
  "stopVibration env s =
     (s\<lparr>vibrationInterval := False\<rparr>, if canVibrate env then [Vibrate [0]] else [])"

text \<open>
  The candidate of a tick:
  \<^verbatim>\<open>alarms.find(a => a.isEnabled && a.time === currentTimeStr && isAlarmOnDate(a, todayKey))\<close>.
\<close>

definition isCandidate :: "Env \<Rightarrow> JsDate \<Rightarrow> Alarm \<Rightarrow> bool" where
  "isCandidate env now a =
     (isEnabled a \<and> time a = currentTimeStr now
      \<and> isAlarmOnDate (localTZA env) a (formatDateKey now))"

definition triggered :: "Env \<Rightarrow> JsDate \<Rightarrow> Alarm list \<Rightarrow> Alarm option" where
  "triggered env now as = List.find (isCandidate env now) as"

text \<open>
  The branch of the tick that starts the ring:
  \<^verbatim>\<open>
  const allSounds = [...DEFAULT_SOUNDS, ...getStoredCustomSounds()];
  const sound = allSounds.find(s => s.id === triggered.soundId) || DEFAULT_SOUNDS[0];
  if (alarmAudioRef.current) {
    alarmAudioRef.current.src = sound.url;
    alarmAudioRef.current.loop = true;
    alarmAudioRef.current.play().catch(console.error);
  }
  startAlarmVibration();
  setRingingAlarm(triggered);
  if (navigator.onLine) { playAiGreeting(triggered); }
  \<close>
  A rejected \<^verbatim>\<open>play()\<close> is only logged by the source and is not modelled.
\<close>

definition startRinging2 ::
    "Env \<Rightarrow> JsDate \<Rightarrow> Alarm \<Rightarrow> AppState \<Rightarrow> AppState \<times> Effect list" where
  "startRinging2 env now t s =
     (let sound = resolveSound env (soundId t);
          s1 = s\<lparr>alarmAudio :=
                   map_option (\<lambda>a. a\<lparr>src := sa_url sound, loop := True, paused := False\<rparr>)
                     (alarmAudio s)\<rparr>;
          e1 = (if alarmAudio s = None then [] else [AudioPlay (sa_url sound)]);
          (s2, e2) = startAlarmVibration env s1;
          s3 = s2\<lparr>ringingAlarm := Some t\<rparr>;
          e3 = (if onLine env then [RequestGreeting t (aiGreetingPrompt env now s)] else [])
      in (s3, e1 @ e2 @ e3))"

text \<open>
  \<^verbatim>\<open>
  const triggered = alarms.find(...);
  if (triggered && !triggeredItemsRef.current.has(secondKey) && now.getSeconds() === 0) {
    triggeredItemsRef.current.add(secondKey);
    if (triggered.type === 'event') { playEventChime(triggered.label); }
    else { if (!ringingAlarm) { ... } }
  }
  \<close>
\<close>

definition tick2 :: "Env \<Rightarrow> JsDate \<Rightarrow> AppState \<Rightarrow> AppState \<times> Effect list" where
  "tick2 env now s =
     (case triggered env now (alarms s) of
        None \<Rightarrow> (s, [])
      | Some t \<Rightarrow>
          if secondKey now \<notin> triggeredItems s \<and> getSeconds now = 0 then
            (let s1 = s\<lparr>triggeredItems := insert (secondKey now) (triggeredItems s)\<rparr>;
                 (s2, es) =
                   (if itemType t = Some event then playEventChime env (label t) s1
                    else if ringingAlarm s = None then startRinging2 env now t s1
                    else (s1, []))
             in (syncRef2 s2, es))
          else (s, []))"

text \<open>
  The continuation of \<^verbatim>\<open>playAiGreeting(alarm)\<close> once its requests have ended. A rejected
  request lands in the \<^verbatim>\<open>catch\<close>, which logs. With audio data, the handler first checks
  \<^verbatim>\<open>if (!ringingAlarmRef.current || ringingAlarmRef.current.id !== alarm.id) return;\<close>
  and only then decodes, stops a narration still playing, starts the new one and lowers
  the alarm sound to 0.15.
\<close>

definition greetingResolved2 ::
    "Env \<Rightarrow> Alarm \<Rightarrow> GreetingOutcome \<Rightarrow> AppState \<Rightarrow> AppState \<times> Effect list" where
  "greetingResolved2 env a out s =
     (case out of
        GreetingRejected \<Rightarrow> (s, [LogError])
      | TtsRejected \<Rightarrow> (s, [LogError])
      | NoAudioData \<Rightarrow> (s, [])
      | _ \<Rightarrow>
          (case ringingAlarmRef s of
             None \<Rightarrow> (s, [])
           | Some r \<Rightarrow>
               if alarmId r \<noteq> alarmId a then (s, [])
               else if out = DecodeFailed then (s, [LogError])
               else (s\<lparr>currentAiSource := Some a,
                       alarmAudio := map_option (\<lambda>el. el\<lparr>volume := 15 / 100\<rparr>) (alarmAudio s)\<rparr>,
                     (if currentAiSource s = None then [] else [NarrationStop])
                       @ [NarrationStart a])))"

text \<open>
  \<^verbatim>\<open>
  const handleDismissAlarm = () => {
    if (alarmAudioRef.current) { alarmAudioRef.current.pause(); alarmAudioRef.current.currentTime = 0; }
    if (currentAiSourceRef.current) { currentAiSourceRef.current.stop(); currentAiSourceRef.current = null; }
    stopVibration();
    setRingingAlarm(null);
  };
  \<close>
\<close>

definition handleDismissAlarm2 :: "Env \<Rightarrow> AppState \<Rightarrow> AppState \<times> Effect list" where
  "handleDismissAlarm2 env s =
     (let s1 = s\<lparr>alarmAudio := map_option (\<lambda>el. el\<lparr>paused := True\<rparr>) (alarmAudio s)\<rparr>;
          e1 = (if currentAiSource s1 = None then [] else [NarrationStop]);
          s2 = s1\<lparr>currentAiSource := None\<rparr>;
          (s3, e3) = stopVibration env s2
      in (syncRef2 (s3\<lparr>ringingAlarm := None\<rparr>), e1 @ e3))"

section \<open>The variant with the volume ramp (handlers 1)\<close>

text \<open>
  \<^verbatim>\<open>
  audio.volume = navigator.onLine ? 0.05 : 0.2;
  rampInterval = window.setInterval(() => {
    if (audio.volume < 1) {
      const nextVolume = audio.volume * 1.3;
      audio.volume = Math.min(1, nextVolume);
    }
  }, 3000);
  \<close>
  Volumes are real numbers here; the source computes in double precision, where each
  product is rounded.
\<close>

definition initialVolume :: "bool \<Rightarrow> real" where
  "initialVolume online = (if online then 5 / 100 else 2 / 10)"

definition rampStep :: "real \<Rightarrow> real" where
  "rampStep v = (if v < 1 then min 1 (v * (13 / 10)) else v)"

definition rampSeq :: "real \<Rightarrow> nat \<Rightarrow> real" where
  "rampSeq v n = (rampStep ^^ n) v"

text \<open>
  The ramp effect depends on \<^verbatim>\<open>[ringingAlarm]\<close>: after a render that changed it, the old
  interval is cleared and, if an alarm rings and the audio element is mounted, the volume is
  reset and a new interval set.
\<close>

definition rampEffect1 :: "Env \<Rightarrow> AppState \<Rightarrow> AppState" where
  "rampEffect1 env s =
     (case (ringingAlarm s, alarmAudio s) of
        (Some r, Some el) \<Rightarrow>
          s\<lparr>alarmAudio := Some (el\<lparr>volume := initialVolume (onLine env)\<rparr>), rampInterval := True\<rparr>
      | _ \<Rightarrow> s\<lparr>rampInterval := False\<rparr>)"

definition rampTick1 :: "AppState \<Rightarrow> AppState" where
  "rampTick1 s =
     (if rampInterval s
      then s\<lparr>alarmAudio := map_option (\<lambda>el. el\<lparr>volume := rampStep (volume el)\<rparr>) (alarmAudio s)\<rparr>
      else s)"

text \<open>
  \<^verbatim>\<open>
  const triggered = alarms.find(a => {
    if (!a.isEnabled || a.time !== currentTimeStr) return false;
    return isAlarmOnDate(a, todayKey);
  });
  if (triggered && !triggeredAlarmsRef.current.has(secondKey) && now.getSeconds() === 0 && !ringingAlarm) {
    triggeredAlarmsRef.current.add(secondKey);
    ... audio: src, loop, volume = navigator.onLine ? 0.05 : 0.8, load(), play() ...
    if (navigator.onLine) { playImmediateAiGreeting(triggered); }
    setRingingAlarm(triggered);
  }
  \<close>
\<close>

definition isCandidate1 :: "Env \<Rightarrow> JsDate \<Rightarrow> Alarm \<Rightarrow> bool" where
  "isCandidate1 env now a =
     (if \<not> isEnabled a \<or> time a \<noteq> currentTimeStr now then False
      else isAlarmOnDate (localTZA env) a (formatDateKey now))"

definition tick1 :: "Env \<Rightarrow> JsDate \<Rightarrow> AppState \<Rightarrow> AppState \<times> Effect list" where
  "tick1 env now s =
     (case List.find (isCandidate1 env now) (alarms s) of
        None \<Rightarrow> (s, [])
      | Some t \<Rightarrow>
          if secondKey now \<notin> triggeredItems s \<and> getSeconds now = 0 \<and> ringingAlarm s = None then
            (let s1 = s\<lparr>triggeredItems := insert (secondKey now) (triggeredItems s)\<rparr>;
                 sound = resolveSound env (soundId t);
                 s2 = s1\<lparr>alarmAudio :=
                          map_option (\<lambda>el. el\<lparr>src := sa_url sound, loop := True,
                                              volume := (if onLine env then 5 / 100 else 8 / 10),
                                              paused := False\<rparr>)
                            (alarmAudio s1)\<rparr>;
                 e2 = (if alarmAudio s = None then [] else [AudioPlay (sa_url sound)]);
                 e3 = (if onLine env
                       then [RequestGreeting t (immediateGreetingPrompt env now s)] else []);
                 s3 = s2\<lparr>ringingAlarm := Some t\<rparr>
             in (rampEffect1 env s3, e2 @ e3))
          else (s, []))"

text \<open>
  The continuation of \<^verbatim>\<open>playImmediateAiGreeting(alarm)\<close>. With audio data it plays at once:
  there is no look at \<^verbatim>\<open>ringingAlarm\<close>. The \<^verbatim>\<open>catch\<close> logs and sets the alarm sound to
  0.8 (``Fallback: If AI fails, make sure the normal alarm is audible'').
\<close>

definition greetingResolved1 ::
    "Env \<Rightarrow> Alarm \<Rightarrow> GreetingOutcome \<Rightarrow> AppState \<Rightarrow> AppState \<times> Effect list" where
  "greetingResolved1 env a out s =
     (case out of
        NoAudioData \<Rightarrow> (s, [])
      | AudioReady \<Rightarrow>
          (s\<lparr>currentAiSource := Some a,
             alarmAudio := map_option (\<lambda>el. el\<lparr>volume := 1 / 10\<rparr>) (alarmAudio s)\<rparr>,
           (if currentAiSource s = None then [] else [NarrationStop]) @ [NarrationStart a])
      | _ \<Rightarrow>
          (s\<lparr>alarmAudio := map_option (\<lambda>el. el\<lparr>volume := 8 / 10\<rparr>) (alarmAudio s)\<rparr>,
           [LogError]))"

text \<open>
  The dismissal of this variant also clears \<^verbatim>\<open>loop\<close>, and there is no vibration to stop
  (its comment on the narration: ``Stop AI audio immediately upon dismissal''). The ramp
  effect runs when \<^verbatim>\<open>ringingAlarm\<close> has changed.
\<close>

definition handleDismissAlarm1 :: "Env \<Rightarrow> AppState \<Rightarrow> AppState \<times> Effect list" where
  "handleDismissAlarm1 env s =
     (let s1 = s\<lparr>alarmAudio := map_option (\<lambda>el. el\<lparr>paused := True, loop := False\<rparr>) (alarmAudio s)\<rparr>;
          e1 = (if currentAiSource s1 = None then [] else [NarrationStop]);
          s2 = s1\<lparr>currentAiSource := None, ringingAlarm := None\<rparr>
      in ((if ringingAlarm s = None then s2 else rampEffect1 env s2), e1))"

section \<open>Runs\<close>

text \<open>
  What can happen to the component: a tick of the one-second interval, the dismiss gesture,
  the end of a narration request, the banner's timeout, a ramp interval firing, and any
  change of the alarm list by the user (add, edit, toggle, delete).
\<close>

datatype Event =
    Tick JsDate
  | Dismiss
  | GreetingResolved Alarm GreetingOutcome
  | BannerTimeout
  | RampTick
  | SetAlarms "Alarm list"

fun step2 :: "Env \<Rightarrow> Event \<Rightarrow> AppState \<Rightarrow> AppState \<times> Effect list" where
  "step2 env (Tick now) s = tick2 env now s"
| "step2 env Dismiss s = handleDismissAlarm2 env s"
| "step2 env (GreetingResolved a out) s = greetingResolved2 env a out s"
| "step2 env BannerTimeout s = (s\<lparr>eventNotification := None\<rparr>, [])"
| "step2 env RampTick s = (s, [])"
| "step2 env (SetAlarms as) s = (s\<lparr>alarms := as\<rparr>, [])"

fun step1 :: "Env \<Rightarrow> Event \<Rightarrow> AppState \<Rightarrow> AppState \<times> Effect list" where
  "step1 env (Tick now) s = tick1 env now s"
| "step1 env Dismiss s = handleDismissAlarm1 env s"
| "step1 env (GreetingResolved a out) s = greetingResolved1 env a out s"
| "step1 env BannerTimeout s = (s, [])"
| "step1 env RampTick s = (rampTick1 s, [])"
| "step1 env (SetAlarms as) s = (s\<lparr>alarms := as\<rparr>, [])"

fun run ::
    "(Env \<Rightarrow> Event \<Rightarrow> AppState \<Rightarrow> AppState \<times> Effect list)
      \<Rightarrow> (Env \<times> Event) list \<Rightarrow> AppState \<Rightarrow> AppState \<times> Effect list" where
  "run stp [] s = (s, [])"
| "run stp ((env, ev) # rest) s =
     (let (s1, e1) = stp env ev s; (s2, e2) = run stp rest s1 in (s2, e1 @ e2))"

section \<open>The editor's save operation\<close>

text \<open>
  The form state of \<^verbatim>\<open>AlarmModal\<close> and its prop \<^verbatim>\<open>initialDate\<close>. JavaScript's \<^verbatim>\<open>a || b\<close>
  on strings takes \<^verbatim>\<open>b\<close> when \<^verbatim>\<open>a\<close> is empty (or undefined).
\<close>

record ModalState =
  m_time :: string
  m_endTime :: string
  m_label :: string
  m_description :: string
  m_type :: ItemType
  m_repeatDays :: "nat list"
  m_specificDates :: "string list"
  useRange :: bool
  rangeFrom :: string
  rangeTo :: string
  selectedSoundId :: string

definition orElse :: "string \<Rightarrow> string \<Rightarrow> string" where
  "orElse a b = (if a = [] then b else a)"

definition orUndefined :: "string option \<Rightarrow> string" where
  "orUndefined a = (case a of None \<Rightarrow> [] | Some x \<Rightarrow> x)"

text \<open>
  \<^verbatim>\<open>components/AlarmModal.tsx\<close>:
  \<^verbatim>\<open>
  onSave({ time, label: label || 'Sync Point',
    specificDates: !useRange ? specificDates : undefined,
    dateRange: useRange ? { from: rangeFrom, to: rangeTo } : undefined,
    repeatDays: repeatDays.length > 0 ? repeatDays : undefined,
    isEnabled: true, soundId: selectedSoundId });
  \<close>
\<close>

definition handleSave :: "ModalState \<Rightarrow> AlarmDraft" where
  "handleSave m =
     \<lparr>time = m_time m,
      endTime = None,
      label = orElse (m_label m) ''Sync Point'',
      description = None,
      specificDates = (if \<not> useRange m then Some (m_specificDates m) else None),
      dateRange = (if useRange m then Some \<lparr>dr_from = rangeFrom m, dr_to = rangeTo m\<rparr> else None),
      repeatDays = (if length (m_repeatDays m) > 0 then Some (m_repeatDays m) else None),
      isEnabled = True,
      soundId = selectedSoundId m,
      isAiEnabled = None,
      itemType = None\<rparr>"

text \<open>
  The variant of the modal with events:
  \<^verbatim>\<open>
  const finalUseRange = type === 'event' || useRange;
  onSave({ time, endTime: type === 'event' ? endTime : undefined,
    label: label || (type === 'alarm' ? 'New Alarm' : 'Untitled Event'),
    description: type === 'event' ? description : undefined, type,
    specificDates: !finalUseRange ? specificDates : undefined,
    dateRange: finalUseRange ? { from: rangeFrom || initialDate || '',
                                 to: rangeTo || rangeFrom || initialDate || '' } : undefined,
    repeatDays: repeatDays.length > 0 ? repeatDays : undefined,
    isEnabled: true, soundId: selectedSoundId });
  \<close>
\<close>

definition finalUseRange :: "ModalState \<Rightarrow> bool" where
  "finalUseRange m = (m_type m = event \<or> useRange m)"

definition handleSaveTyped :: "ModalState \<Rightarrow> string option \<Rightarrow> AlarmDraft" where
  "handleSaveTyped m initialDate =
     \<lparr>time = m_time m,
      endTime = (if m_type m = event then Some (m_endTime m) else None),
      label = orElse (m_label m) (if m_type m = alarm then ''New Alarm'' else ''Untitled Event''),
      description = (if m_type m = event then Some (m_description m) else None),
      specificDates = (if \<not> finalUseRange m then Some (m_specificDates m) else None),
      dateRange =
        (if finalUseRange m
         then Some \<lparr>dr_from = orElse (orElse (rangeFrom m) (orUndefined initialDate)) [],
                    dr_to = orElse (orElse (orElse (rangeTo m) (rangeFrom m)) (orUndefined initialDate)) []\<rparr>
         else None),
      repeatDays = (if length (m_repeatDays m) > 0 then Some (m_repeatDays m) else None),
      isEnabled = True,
      soundId = selectedSoundId m,
      isAiEnabled = None,
      itemType = Some (m_type m)\<rparr>"

section \<open>Concrete inputs\<close>

text \<open>
  Hosts on UTC and on UTC-5, the tick of 1 March 2024 (a Friday) at 09:00:00, the freshly
  mounted component, and items due at that minute.
\<close>

definition envUTC :: Env where
  "envUTC = \<lparr>localTZA = 0, onLine = True, canVibrate = True, notificationGranted = True,
             audioContextOk = True, storedCustomSounds = []\<rparr>"

definition envNewYork :: Env where
  "envNewYork = envUTC\<lparr>localTZA := - 18000000\<rparr>"

definition nineOClock :: JsDate where
  "nineOClock = \<lparr>toISOString = ''2024-03-01T09:00:00.000Z'', getFullYear = 2024, getMonth = 2,
                 getDate = 1, getHours = 9, getMinutes = 0, getSeconds = 0\<rparr>"

text \<open>Friday 1 March 2024, 08:00:00 in a host on UTC-5: 13:00 UTC of the same day.\<close>

definition eightNewYork :: JsDate where
  "eightNewYork = \<lparr>toISOString = ''2024-03-01T13:00:00.000Z'', getFullYear = 2024, getMonth = 2,
                   getDate = 1, getHours = 8, getMinutes = 0, getSeconds = 0\<rparr>"

definition mounted :: "Alarm list \<Rightarrow> AppState" where
  "mounted as =
     \<lparr>alarms = as, weather = None, ringingAlarm = None, ringingAlarmRef = None, eventNotification = None,
      triggeredItems = {},
      alarmAudio = Some \<lparr>src = [], loop = False, paused = True, volume = 1\<rparr>,
      currentAiSource = None, vibrationInterval = False, rampInterval = False\<rparr>"

definition itemAt9 :: "string \<Rightarrow> ItemType \<Rightarrow> Alarm" where
  "itemAt9 i ty =
     \<lparr>time = ''09:00'', endTime = None, label = i, description = None,
      specificDates = Some [''2024-03-01''], dateRange = None, repeatDays = None,
      isEnabled = True, soundId = ''classic'', isAiEnabled = None, itemType = Some ty,
      alarmId = i\<rparr>"

definition fridays :: Alarm where
  "fridays =
     \<lparr>time = ''08:00'', endTime = None, label = ''Fridays'', description = None,
      specificDates = None, dateRange = None, repeatDays = Some [5],
      isEnabled = True, soundId = ''classic'', isAiEnabled = None, itemType = None,
      alarmId = ''f''\<rparr>"

text \<open>The component after the tick of 09:00:00 with two items due at that minute.\<close>

definition afterFirstTick2 :: AppState where
  "afterFirstTick2 =
     fst (tick2 envUTC nineOClock (mounted [itemAt9 ''a'' event, itemAt9 ''b'' event]))"

definition afterFirstTick1 :: AppState where
  "afterFirstTick1 =
     fst (tick1 envUTC nineOClock (mounted [itemAt9 ''a'' alarm, itemAt9 ''b'' alarm]))"

text \<open>The component while alarm \<open>a\<close> rings and alarm \<open>b\<close> is the only item in the list.\<close>

definition ringingA :: AppState where
  "ringingA = (mounted [itemAt9 ''b'' alarm])\<lparr>ringingAlarm := Some (itemAt9 ''a'' alarm),
       ringingAlarmRef := Some (itemAt9 ''a'' alarm)\<rparr>"

text \<open>The component while alarm \<open>a\<close> rings and event \<open>e\<close> is the only item in the list.\<close>

definition ringingWithEvent :: AppState where
  "ringingWithEvent =
     (mounted [itemAt9 ''e'' event])\<lparr>ringingAlarm := Some (itemAt9 ''a'' alarm),
        ringingAlarmRef := Some (itemAt9 ''a'' alarm)\<rparr>"

text \<open>
  A run of the variant with the ramp: the alarm rings at 09:00:00, the user dismisses it, and
  then the narration requested at the start arrives with audio.
\<close>

definition dismissedBeforeNarration :: "(Env \<times> Event) list" where
  "dismissedBeforeNarration =
     [(envUTC, Tick nineOClock), (envUTC, Dismiss),
      (envUTC, GreetingResolved (itemAt9 ''a'' alarm) AudioReady)]"

text \<open>
  Runs of the variant with the ramp: the ring starts at 09:00:00 and five ramp intervals
  pass; then the narration arrives with audio and a sixth interval passes.
\<close>

definition fiveIntervals :: "(Env \<times> Event) list" where
  "fiveIntervals =
     [(envUTC, Tick nineOClock), (envUTC, RampTick), (envUTC, RampTick), (envUTC, RampTick),
      (envUTC, RampTick), (envUTC, RampTick)]"

definition narrationThenSixth :: "(Env \<times> Event) list" where
  "narrationThenSixth =
     fiveIntervals @ [(envUTC, GreetingResolved (itemAt9 ''a'' alarm) AudioReady), (envUTC, RampTick)]"

definition exampleForm :: ModalState where
  "exampleForm =
     \<lparr>m_time = ''08:00'', m_endTime = ''09:00'', m_label = [], m_description = [],
      m_type = alarm, m_repeatDays = [1, 3], m_specificDates = [''2024-03-01''],
      useRange = False, rangeFrom = ''2024-03-01'', rangeTo = [], selectedSoundId = ''classic''\<rparr>"

section \<open>The recurrence matcher: properties\<close>

lemmas date_defs =
  newDate_def getDay_def weekDay_def weekdayOf_def isDigit_def digitVal_def daysInMonth_def
  inLeapYear_def makeDay_def dayFromYear_def daysBeforeMonth_def msPerDay_def

text \<open>
  In a host whose local time is at or ahead of UTC (by less than a day), the weekday that
  \<^verbatim>\<open>getDay\<close> reads from \<^verbatim>\<open>new Date(dateKey)\<close> is the weekday of the date.
\<close>

lemma getDay_east_of_UTC:
  assumes "0 \<le> tza" and "tza < msPerDay"
  shows "getDay tza (newDate dateKey) = weekdayOf dateKey"
proof (cases "parseDateKey dateKey")
  case None
  then show ?thesis by (simp add: getDay_def newDate_def weekdayOf_def)
next
  case (Some p)
  obtain y m d where p: "p = (y, m, d)" by (cases p)
  have "(makeDay y m d * msPerDay + tza) div msPerDay = makeDay y m d"
    using assms by (simp add: msPerDay_def)
  then show ?thesis
    using Some p by (simp add: getDay_def newDate_def weekdayOf_def weekDay_def)
qed

text \<open>
  There the matcher is the disjunction the specification states: a specific date, or inside
  the inclusive range under string comparison, or a repeat day.
\<close>

lemma isAlarmOnDate_east_of_UTC:
  assumes "0 \<le> tza" and "tza < msPerDay"
  shows "isAlarmOnDate tza a dateKey = matchesSpec a dateKey"
  using getDay_east_of_UTC [OF assms, of dateKey]
  by (auto simp: isAlarmOnDate_def matchesSpec_def Let_def split: option.splits)

text \<open>An alarm with no occurrence field matches no date, in any host.\<close>

lemma isAlarmOnDate_no_occurrence:
  assumes "specificDates a = None \<or> specificDates a = Some []"
    and "dateRange a = None"
    and "repeatDays a = None \<or> repeatDays a = Some []"
  shows "\<not> isAlarmOnDate tza a dateKey"
  using assms by (auto simp: isAlarmOnDate_def Let_def split: option.splits)

text \<open>A weekly alarm on weekday \<open>w\<close> alone, in a host at or ahead of UTC.\<close>

lemma isAlarmOnDate_weekly_east_of_UTC:
  assumes "0 \<le> tza" and "tza < msPerDay"
    and "specificDates a = None" and "dateRange a = None" and "repeatDays a = Some [w]"
  shows "isAlarmOnDate tza a dateKey \<longleftrightarrow> weekdayOf dateKey = Some w"
  using getDay_east_of_UTC [OF assms(1,2), of dateKey] assms(3-5)
  by (auto simp: isAlarmOnDate_def Let_def split: option.splits)

text \<open>The calendar of the model on known days, and on strings that are no dates.\<close>

lemma weekdayOf_known_days:
  "weekdayOf ''1970-01-01'' = Some 4" "weekdayOf ''2000-02-29'' = Some 2"
  "weekdayOf ''2023-12-31'' = Some 0" "weekdayOf ''2024-01-01'' = Some 1"
  "weekdayOf ''2024-02-29'' = Some 4" "weekdayOf ''2024-03-01'' = Some 5"
  "weekdayOf ''2023-02-29'' = None" "weekdayOf ''2024-3-1'' = None"
  by (simp_all add: date_defs)

text \<open>
  In a host behind UTC (by at most a day), \<^verbatim>\<open>getDay\<close> reads the weekday of the day before
  the date, so a weekly alarm is matched on the day after its weekday.
\<close>

lemma getDay_west_of_UTC:
  assumes "- msPerDay \<le> tza" and "tza < 0"
  shows "getDay tza (newDate dateKey) = map_option (\<lambda>w. (w + 6) mod 7) (weekdayOf dateKey)"
proof (cases "parseDateKey dateKey")
  case None
  then show ?thesis by (simp add: getDay_def newDate_def weekdayOf_def)
next
  case (Some p)
  obtain y m d where p: "p = (y, m, d)" by (cases p)
  define D where "D = makeDay y m d"
  have r: "0 \<le> tza + 86400000" "tza + 86400000 < 86400000"
    using assms by (simp_all add: msPerDay_def)
  have "D * 86400000 + tza = (tza + 86400000) + (D - 1) * 86400000" by simp
  then have "(D * 86400000 + tza) div 86400000 = (tza + 86400000) div 86400000 + (D - 1)"
    by (simp only: div_mult_self1 [of "86400000 :: int" "tza + 86400000" "D - 1"])
  also have "(tza + 86400000) div 86400000 = 0"
    using r by (rule div_pos_pos_trivial)
  finally have day: "(D * msPerDay + tza) div msPerDay = D - 1"
    by (simp add: msPerDay_def)
  have "(D - 1 + 4) mod 7 = ((D + 4) mod 7 + 6) mod 7" by presburger
  then have "nat ((D - 1 + 4) mod 7) = (nat ((D + 4) mod 7) + 6) mod 7"
    by (simp add: nat_mod_distrib nat_add_distrib)
  then show ?thesis
    using Some p day by (simp add: getDay_def newDate_def weekdayOf_def weekDay_def D_def)
qed

lemma isAlarmOnDate_weekly_west_of_UTC:
  assumes "- msPerDay \<le> tza" and "tza < 0"
    and "specificDates a = None" and "dateRange a = None" and "repeatDays a = Some [w]"
  shows "isAlarmOnDate tza a dateKey \<longleftrightarrow> (\<exists>v. weekdayOf dateKey = Some v \<and> (v + 6) mod 7 = w)"
  using getDay_west_of_UTC [OF assms(1,2), of dateKey] assms(3-5)
  by (auto simp: isAlarmOnDate_def Let_def split: option.splits)

text \<open>
  Claim C1. The matcher is true exactly when the date is a specific date, or lies in the
  date range, or its weekday is a repeat day. In a host behind UTC the code reads the
  weekday of the evening before: \<^verbatim>\<open>new Date("2024-03-01")\<close> is midnight UTC, which in a host
  on UTC-5 is Thursday 29 February, 19:00. An alarm repeating on Fridays (weekday 5) and
  with no other occurrence field is therefore not matched on Friday 1 March 2024, and is
  matched on Saturday 2 March.
\<close>

theorem isAlarmOnDate_west_of_UTC:
  "specificDates fridays = None \<and> dateRange fridays = None \<and> repeatDays fridays = Some [5]
   \<and> weekdayOf ''2024-03-01'' = Some 5
   \<and> isAlarmOnDate (localTZA envNewYork) fridays ''2024-03-01'' = False
   \<and> weekdayOf ''2024-03-02'' = Some 6
   \<and> isAlarmOnDate (localTZA envNewYork) fridays ''2024-03-02'' = True"
  by (simp add: isAlarmOnDate_def date_defs fridays_def envNewYork_def envUTC_def)

section \<open>The dedupe tracker\<close>

lemmas prompt_defs =
  aiGreetingPrompt_def immediateGreetingPrompt_def greetingTimeOfDay_def agendaEntry_def

lemmas handler2_defs =
  tick2_def playEventChime_def startRinging2_def startAlarmVibration_def stopVibration_def
  syncRef2_def greetingResolved2_def handleDismissAlarm2_def

lemmas handler1_defs =
  tick1_def rampEffect1_def rampTick1_def greetingResolved1_def handleDismissAlarm1_def

lemmas time_defs =
  currentTimeStr_def secondKey_def formatDateKey_def padStart2_def digitChar_def padStart4_def
  localDateKey_def

lemmas example_defs =
  envUTC_def envNewYork_def nineOClock_def eightNewYork_def mounted_def itemAt9_def

lemmas eval_defs =
  handler2_defs handler1_defs triggered_def isCandidate_def isCandidate1_def isAlarmOnDate_def
  resolveSound_def DEFAULT_SOUNDS_def initialVolume_def prompt_defs date_defs time_defs
  example_defs

text \<open>What a tick does to the set of consumed keys, and that no step removes a key.\<close>

lemma triggeredItems_tick2:
  "triggeredItems (fst (tick2 env now s)) =
     (if triggered env now (alarms s) \<noteq> None \<and> secondKey now \<notin> triggeredItems s
         \<and> getSeconds now = 0
      then insert (secondKey now) (triggeredItems s) else triggeredItems s)"
  by (auto simp: handler2_defs Let_def split: option.splits)

lemma triggeredItems_tick1:
  "triggeredItems (fst (tick1 env now s)) =
     (if List.find (isCandidate1 env now) (alarms s) \<noteq> None \<and> secondKey now \<notin> triggeredItems s
         \<and> getSeconds now = 0 \<and> ringingAlarm s = None
      then insert (secondKey now) (triggeredItems s) else triggeredItems s)"
  by (auto simp: handler1_defs Let_def split: option.splits)

lemma triggeredItems_step2: "triggeredItems s \<subseteq> triggeredItems (fst (step2 env ev s))"
proof (cases ev)
  case (Tick now)
  then show ?thesis by (auto simp: triggeredItems_tick2)
next
  case (GreetingResolved a out)
  then show ?thesis by (cases out) (auto simp: handler2_defs split: option.splits)
qed (auto simp: handler2_defs Let_def)

lemma triggeredItems_step1: "triggeredItems s \<subseteq> triggeredItems (fst (step1 env ev s))"
proof (cases ev)
  case (Tick now)
  then show ?thesis by (auto simp: triggeredItems_tick1)
next
  case (GreetingResolved a out)
  then show ?thesis by (cases out) (auto simp: handler1_defs split: option.splits)
qed (auto simp: handler1_defs Let_def split: option.splits)

lemma fst_run_Cons:
  "fst (run stp ((env, ev) # rest) s) = fst (run stp rest (fst (stp env ev s)))"
  by (simp split: prod.splits)

lemma triggeredItems_run:
  assumes "\<And>env ev s. triggeredItems s \<subseteq> triggeredItems (fst (stp env ev s))"
  shows "triggeredItems s \<subseteq> triggeredItems (fst (run stp evs s))"
proof (induction evs arbitrary: s)
  case Nil
  then show ?case by simp
next
  case (Cons p evs)
  obtain env ev where p: "p = (env, ev)" by (cases p)
  have "triggeredItems s \<subseteq> triggeredItems (fst (stp env ev s))" by (rule assms)
  also have "\<dots> \<subseteq> triggeredItems (fst (run stp evs (fst (stp env ev s))))" by (rule Cons.IH)
  finally show ?case unfolding p fst_run_Cons .
qed

lemma tick2_consumed: "secondKey now \<in> triggeredItems s \<Longrightarrow> tick2 env now s = (s, [])"
  by (simp add: tick2_def split: option.splits)

lemma tick1_consumed: "secondKey now \<in> triggeredItems s \<Longrightarrow> tick1 env now s = (s, [])"
  by (simp add: tick1_def split: option.splits)

text \<open>
  Claim C2, as the code has it. The key of the dedupe set is the date and the minute
  (\<^verbatim>\<open>`${todayKey}-${currentTimeStr}`\<close>), without the alarm id. A tick that finds a candidate
  at second 0 under a key not yet consumed records the key; a consumed key stays consumed
  through every later step of the component; and a tick under a consumed key changes nothing
  and dispatches nothing, whichever alarm it finds. This holds in both variants (in the
  variant with the ramp the key is recorded only when no alarm is ringing).
\<close>

theorem dedupe_per_date_and_minute:
  "(triggered env now (alarms s) \<noteq> None \<and> secondKey now \<notin> triggeredItems s \<and> getSeconds now = 0
      \<longrightarrow> secondKey now \<in> triggeredItems (fst (tick2 env now s)))
   \<and> (secondKey now \<in> triggeredItems s
      \<longrightarrow> secondKey now \<in> triggeredItems (fst (run step2 evs s)))
   \<and> (secondKey now \<in> triggeredItems s \<longrightarrow> tick2 env now s = (s, []))
   \<and> (List.find (isCandidate1 env now) (alarms s) \<noteq> None \<and> secondKey now \<notin> triggeredItems s
        \<and> getSeconds now = 0 \<and> ringingAlarm s = None
      \<longrightarrow> secondKey now \<in> triggeredItems (fst (tick1 env now s)))
   \<and> (secondKey now \<in> triggeredItems s
      \<longrightarrow> secondKey now \<in> triggeredItems (fst (run step1 evs s)))
   \<and> (secondKey now \<in> triggeredItems s \<longrightarrow> tick1 env now s = (s, []))"
  using triggeredItems_run [of step2 s evs, OF triggeredItems_step2]
        triggeredItems_run [of step1 s evs, OF triggeredItems_step1]
  by (auto simp: triggeredItems_tick2 triggeredItems_tick1 tick2_consumed tick1_consumed)

theorem dedupe_per_date_and_minute_witness:
  "secondKey nineOClock \<in> triggeredItems afterFirstTick2
   \<and> secondKey nineOClock \<in> triggeredItems (fst (run step2 [(envUTC, Dismiss), (envUTC, SetAlarms [itemAt9 ''b'' event])] afterFirstTick2))
   \<and> tick2 envUTC nineOClock afterFirstTick2 = (afterFirstTick2, [])
   \<and> secondKey nineOClock \<in> triggeredItems afterFirstTick1
   \<and> secondKey nineOClock \<in> triggeredItems (fst (run step1 [(envUTC, Dismiss), (envUTC, SetAlarms [itemAt9 ''b'' alarm])] afterFirstTick1))
   \<and> tick1 envUTC nineOClock afterFirstTick1 = (afterFirstTick1, [])"
proof -
  have fresh2: "triggered envUTC nineOClock (alarms (mounted [itemAt9 ''a'' event, itemAt9 ''b'' event])) \<noteq> None
      \<and> secondKey nineOClock \<notin> triggeredItems (mounted [itemAt9 ''a'' event, itemAt9 ''b'' event])
      \<and> getSeconds nineOClock = 0"
    by (simp add: eval_defs)
  have fresh1: "List.find (isCandidate1 envUTC nineOClock) (alarms (mounted [itemAt9 ''a'' alarm, itemAt9 ''b'' alarm])) \<noteq> None
      \<and> secondKey nineOClock \<notin> triggeredItems (mounted [itemAt9 ''a'' alarm, itemAt9 ''b'' alarm])
      \<and> getSeconds nineOClock = 0 \<and> ringingAlarm (mounted [itemAt9 ''a'' alarm, itemAt9 ''b'' alarm]) = None"
    by (simp add: eval_defs)
  have k2: "secondKey nineOClock \<in> triggeredItems afterFirstTick2"
    using fresh2 dedupe_per_date_and_minute
      [of envUTC nineOClock "mounted [itemAt9 ''a'' event, itemAt9 ''b'' event]"]
    unfolding afterFirstTick2_def by blast
  have k1: "secondKey nineOClock \<in> triggeredItems afterFirstTick1"
    using fresh1 dedupe_per_date_and_minute
      [of envUTC nineOClock "mounted [itemAt9 ''a'' alarm, itemAt9 ''b'' alarm]"]
    unfolding afterFirstTick1_def by blast
  show ?thesis
    using k2 k1
      dedupe_per_date_and_minute [of envUTC nineOClock afterFirstTick2
        "[(envUTC, Dismiss), (envUTC, SetAlarms [itemAt9 ''b'' event])]"]
      dedupe_per_date_and_minute [of envUTC nineOClock afterFirstTick1
        "[(envUTC, Dismiss), (envUTC, SetAlarms [itemAt9 ''b'' alarm])]"]
    by blast
qed

text \<open>
  Claim C2 as stated fails: the key does not include the alarm id, so two distinct items of
  the same date and minute are not deduplicated independently. After item \<open>a\<close> has fired at
  09:00:00, a tick of the same minute that finds item \<open>b\<close> (here with \<open>b\<close> alone in the list)
  dispatches nothing, although \<open>b\<close> has never fired.
\<close>

theorem dedupe_ignores_alarm_id:
  "alarmId (itemAt9 ''a'' event) \<noteq> alarmId (itemAt9 ''b'' event)
   \<and> isCandidate envUTC nineOClock (itemAt9 ''b'' event)
   \<and> snd (tick2 envUTC nineOClock (mounted [itemAt9 ''a'' event, itemAt9 ''b'' event]))
       = [Chime, Vibrate [400], Notify ''a'']
   \<and> triggered envUTC nineOClock (alarms (afterFirstTick2\<lparr>alarms := [itemAt9 ''b'' event]\<rparr>))
       = Some (itemAt9 ''b'' event)
   \<and> snd (tick2 envUTC nineOClock (afterFirstTick2\<lparr>alarms := [itemAt9 ''b'' event]\<rparr>)) = []"
  by (simp add: afterFirstTick2_def eval_defs)


section \<open>The ringing slot\<close>

lemma find_filter_Cons: "filter P xs = a # rest \<Longrightarrow> List.find P xs = Some a"
  by (induction xs) (auto split: if_splits)

lemma find_Some_first:
  "List.find P xs = Some x \<Longrightarrow> \<exists>pre post. xs = pre @ x # post \<and> P x \<and> (\<forall>a\<in>set pre. \<not> P a)"
proof (induction xs)
  case Nil
  then show ?case by simp
next
  case (Cons y ys)
  show ?case
  proof (cases "P y")
    case True
    with Cons.prems have "x = y" by simp
    with True have "y # ys = [] @ x # ys \<and> P x \<and> (\<forall>a\<in>set []. \<not> P a)" by simp
    then show ?thesis by blast
  next
    case False
    with Cons obtain pre post where "ys = pre @ x # post" "P x" "\<forall>a\<in>set pre. \<not> P a" by auto
    with False have "y # ys = (y # pre) @ x # post \<and> P x \<and> (\<forall>a\<in>set (y # pre). \<not> P a)" by simp
    then show ?thesis by blast
  qed
qed

lemma isCandidate1_eq: "isCandidate1 env now a = isCandidate env now a"
  by (auto simp: isCandidate1_def isCandidate_def)

lemma find_isCandidate1: "List.find (isCandidate1 env now) as = triggered env now as"
  by (simp add: triggered_def isCandidate1_eq [abs_def])

lemma tick2_alarm_while_ringing:
  assumes "ringingAlarm s = Some r" and "triggered env now (alarms s) = Some t"
    and "itemType t \<noteq> Some event"
  shows "snd (tick2 env now s) = []"
    and "ringingAlarm (fst (tick2 env now s)) = Some r"
    and "alarmAudio (fst (tick2 env now s)) = alarmAudio s"
    and "vibrationInterval (fst (tick2 env now s)) = vibrationInterval s"
    and "currentAiSource (fst (tick2 env now s)) = currentAiSource s"
  using assms by (auto simp: handler2_defs Let_def)

lemma tick1_while_ringing: "ringingAlarm s = Some r \<Longrightarrow> tick1 env now s = (s, [])"
  by (simp add: tick1_def split: option.splits)

lemma tick2_rings_first:
  assumes "triggered env now (alarms s) = Some a" and "itemType a \<noteq> Some event"
    and "ringingAlarm s = None" and "secondKey now \<notin> triggeredItems s" and "getSeconds now = 0"
  shows "ringingAlarm (fst (tick2 env now s)) = Some a"
    and "snd (tick2 env now s) = snd (startRinging2 env now a s)"
  using assms by (auto simp: handler2_defs aiGreetingPrompt_def Let_def)

lemma tick1_rings_first:
  assumes "triggered env now (alarms s) = Some a"
    and "ringingAlarm s = None" and "secondKey now \<notin> triggeredItems s" and "getSeconds now = 0"
  shows "ringingAlarm (fst (tick1 env now s)) = Some a"
    and "snd (tick1 env now s) =
           (if alarmAudio s = None then [] else [AudioPlay (sa_url (resolveSound env (soundId a)))])
           @ (if onLine env then [RequestGreeting a (immediateGreetingPrompt env now s)] else [])"
  using assms by (auto simp: handler1_defs find_isCandidate1 Let_def split: option.splits)

text \<open>
  Claim C3. \<^verbatim>\<open>ringingAlarm\<close> holds at most one alarm. An alarm-kind candidate found while
  an alarm rings dispatches nothing and leaves the ringing alarm, the audio element and the
  vibration as they are (in the variant with the ramp the whole tick is void). When exactly
  two distinct alarm-kind alarms \<open>a\<close>, \<open>b\<close> (in list order) are due on this date and minute,
  nothing rings, the key is fresh and the second is 0, the tick makes \<open>a\<close> the ringing alarm
  and not \<open>b\<close>, and its side effects are those of starting \<open>a\<close>.
\<close>

theorem one_alarm_rings:
  "(ringingAlarm s = Some r \<and> triggered env now (alarms s) = Some t \<and> itemType t \<noteq> Some event
      \<longrightarrow> snd (tick2 env now s) = [] \<and> ringingAlarm (fst (tick2 env now s)) = Some r
          \<and> alarmAudio (fst (tick2 env now s)) = alarmAudio s
          \<and> vibrationInterval (fst (tick2 env now s)) = vibrationInterval s)
   \<and> (ringingAlarm s = Some r \<longrightarrow> tick1 env now s = (s, []))
   \<and> (filter (isCandidate env now) (alarms s) = [a, b] \<and> a \<noteq> b
        \<and> itemType a \<noteq> Some event \<and> itemType b \<noteq> Some event
        \<and> ringingAlarm s = None \<and> secondKey now \<notin> triggeredItems s \<and> getSeconds now = 0
      \<longrightarrow> ringingAlarm (fst (tick2 env now s)) = Some a
          \<and> ringingAlarm (fst (tick2 env now s)) \<noteq> Some b
          \<and> snd (tick2 env now s) = snd (startRinging2 env now a s)
          \<and> ringingAlarm (fst (tick1 env now s)) = Some a
          \<and> ringingAlarm (fst (tick1 env now s)) \<noteq> Some b
          \<and> snd (tick1 env now s) =
               (if alarmAudio s = None then [] else [AudioPlay (sa_url (resolveSound env (soundId a)))])
               @ (if onLine env then [RequestGreeting a (immediateGreetingPrompt env now s)] else []))"
proof (intro conjI impI)
  assume h: "filter (isCandidate env now) (alarms s) = [a, b] \<and> a \<noteq> b
        \<and> itemType a \<noteq> Some event \<and> itemType b \<noteq> Some event
        \<and> ringingAlarm s = None \<and> secondKey now \<notin> triggeredItems s \<and> getSeconds now = 0"
  then have t: "triggered env now (alarms s) = Some a"
    by (simp add: triggered_def find_filter_Cons)
  show "ringingAlarm (fst (tick2 env now s)) = Some a"
    using h t by (simp add: tick2_rings_first)
  then show "ringingAlarm (fst (tick2 env now s)) \<noteq> Some b" using h by simp
  show "snd (tick2 env now s) = snd (startRinging2 env now a s)"
    using h t by (simp add: tick2_rings_first)
  show "ringingAlarm (fst (tick1 env now s)) = Some a"
    using h t by (simp add: tick1_rings_first)
  then show "ringingAlarm (fst (tick1 env now s)) \<noteq> Some b" using h by simp
  show "snd (tick1 env now s) =
               (if alarmAudio s = None then [] else [AudioPlay (sa_url (resolveSound env (soundId a)))])
               @ (if onLine env then [RequestGreeting a (immediateGreetingPrompt env now s)] else [])"
    using h t by (simp add: tick1_rings_first)
qed (simp_all add: tick2_alarm_while_ringing tick1_while_ringing)

theorem one_alarm_rings_witness:
  "snd (tick2 envUTC nineOClock ringingA) = []
   \<and> ringingAlarm (fst (tick2 envUTC nineOClock ringingA)) = Some (itemAt9 ''a'' alarm)
   \<and> tick1 envUTC nineOClock ringingA = (ringingA, [])
   \<and> ringingAlarm (fst (tick2 envUTC nineOClock (mounted [itemAt9 ''a'' alarm, itemAt9 ''b'' alarm])))
       = Some (itemAt9 ''a'' alarm)
   \<and> snd (tick2 envUTC nineOClock (mounted [itemAt9 ''a'' alarm, itemAt9 ''b'' alarm]))
       = [AudioPlay ''https://actions.google.com/sounds/v1/alarms/beep_short.ogg'',
          Vibrate [400, 200, 400],
          RequestGreeting (itemAt9 ''a'' alarm)
            (AiGreetingPrompt ''morning'' [] [(''a'', ''09:00''), (''b'', ''09:00'')] None)]
   \<and> ringingAlarm (fst (tick1 envUTC nineOClock (mounted [itemAt9 ''a'' alarm, itemAt9 ''b'' alarm])))
       = Some (itemAt9 ''a'' alarm)
   \<and> snd (tick1 envUTC nineOClock (mounted [itemAt9 ''a'' alarm, itemAt9 ''b'' alarm]))
       = [AudioPlay ''https://actions.google.com/sounds/v1/alarms/beep_short.ogg'',
          RequestGreeting (itemAt9 ''a'' alarm)
            (ImmediateGreetingPrompt [(''a'', ''09:00''), (''b'', ''09:00'')] None)]"
proof -
  have r: "ringingAlarm ringingA = Some (itemAt9 ''a'' alarm)
      \<and> triggered envUTC nineOClock (alarms ringingA) = Some (itemAt9 ''b'' alarm)
      \<and> itemType (itemAt9 ''b'' alarm) \<noteq> Some event"
    by (simp add: ringingA_def eval_defs)
  have two: "filter (isCandidate envUTC nineOClock)
        (alarms (mounted [itemAt9 ''a'' alarm, itemAt9 ''b'' alarm]))
        = [itemAt9 ''a'' alarm, itemAt9 ''b'' alarm]
      \<and> itemAt9 ''a'' alarm \<noteq> itemAt9 ''b'' alarm
      \<and> itemType (itemAt9 ''a'' alarm) \<noteq> Some event \<and> itemType (itemAt9 ''b'' alarm) \<noteq> Some event
      \<and> ringingAlarm (mounted [itemAt9 ''a'' alarm, itemAt9 ''b'' alarm]) = None
      \<and> secondKey nineOClock \<notin> triggeredItems (mounted [itemAt9 ''a'' alarm, itemAt9 ''b'' alarm])
      \<and> getSeconds nineOClock = 0"
    by (simp add: eval_defs)
  have e2: "snd (startRinging2 envUTC nineOClock (itemAt9 ''a'' alarm)
        (mounted [itemAt9 ''a'' alarm, itemAt9 ''b'' alarm]))
      = [AudioPlay ''https://actions.google.com/sounds/v1/alarms/beep_short.ogg'',
          Vibrate [400, 200, 400],
          RequestGreeting (itemAt9 ''a'' alarm)
            (AiGreetingPrompt ''morning'' [] [(''a'', ''09:00''), (''b'', ''09:00'')] None)]"
    by (simp add: eval_defs)
  have e1: "(if alarmAudio (mounted [itemAt9 ''a'' alarm, itemAt9 ''b'' alarm]) = None then []
        else [AudioPlay (sa_url (resolveSound envUTC (soundId (itemAt9 ''a'' alarm))))])
       @ (if onLine envUTC
          then [RequestGreeting (itemAt9 ''a'' alarm)
                  (immediateGreetingPrompt envUTC nineOClock
                     (mounted [itemAt9 ''a'' alarm, itemAt9 ''b'' alarm]))]
          else [])
      = [AudioPlay ''https://actions.google.com/sounds/v1/alarms/beep_short.ogg'',
          RequestGreeting (itemAt9 ''a'' alarm)
            (ImmediateGreetingPrompt [(''a'', ''09:00''), (''b'', ''09:00'')] None)]"
    by (simp add: eval_defs)
  show ?thesis
    using r two
      one_alarm_rings [of ringingA "itemAt9 ''a'' alarm" envUTC nineOClock "itemAt9 ''b'' alarm"]
      one_alarm_rings [of "mounted [itemAt9 ''a'' alarm, itemAt9 ''b'' alarm]" _ envUTC nineOClock _
        "itemAt9 ''a'' alarm" "itemAt9 ''b'' alarm"]
    unfolding e2 e1 by blast
qed

section \<open>Events\<close>

text \<open>
  Claim C6. An event that is the candidate of a tick at second 0 under a fresh key chimes
  whatever the lifecycle state is, also while an alarm rings: the tone, the vibration burst
  where the host vibrates, the notification where it is granted (the host must yield an audio
  context, else the handler's \<^verbatim>\<open>catch\<close> only logs). The ringing alarm, the audio element,
  the narration and the vibration timer are left as they are.
\<close>

theorem event_chimes_while_ringing:
  "triggered env now (alarms s) = Some e \<and> itemType e = Some event
     \<and> secondKey now \<notin> triggeredItems s \<and> getSeconds now = 0 \<and> audioContextOk env
   \<longrightarrow> snd (tick2 env now s) =
         [Chime] @ (if canVibrate env then [Vibrate [400]] else [])
                 @ (if notificationGranted env then [Notify (label e)] else [])
       \<and> ringingAlarm (fst (tick2 env now s)) = ringingAlarm s
       \<and> alarmAudio (fst (tick2 env now s)) = alarmAudio s
       \<and> currentAiSource (fst (tick2 env now s)) = currentAiSource s
       \<and> vibrationInterval (fst (tick2 env now s)) = vibrationInterval s
       \<and> eventNotification (fst (tick2 env now s)) = Some (label e)"
  by (auto simp: handler2_defs Let_def)

theorem event_chimes_while_ringing_witness:
  "ringingAlarm ringingWithEvent = Some (itemAt9 ''a'' alarm)
   \<and> snd (tick2 envUTC nineOClock ringingWithEvent) = [Chime, Vibrate [400], Notify ''e'']
   \<and> ringingAlarm (fst (tick2 envUTC nineOClock ringingWithEvent)) = Some (itemAt9 ''a'' alarm)
   \<and> alarmAudio (fst (tick2 envUTC nineOClock ringingWithEvent)) = alarmAudio ringingWithEvent"
proof -
  have h: "triggered envUTC nineOClock (alarms ringingWithEvent) = Some (itemAt9 ''e'' event)
      \<and> itemType (itemAt9 ''e'' event) = Some event
      \<and> secondKey nineOClock \<notin> triggeredItems ringingWithEvent \<and> getSeconds nineOClock = 0
      \<and> audioContextOk envUTC"
    by (simp add: ringingWithEvent_def eval_defs)
  have r: "ringingAlarm ringingWithEvent = Some (itemAt9 ''a'' alarm)"
    by (simp add: ringingWithEvent_def)
  have l: "[Chime] @ (if canVibrate envUTC then [Vibrate [400]] else [])
                 @ (if notificationGranted envUTC then [Notify (label (itemAt9 ''e'' event))] else [])
           = [Chime, Vibrate [400], Notify ''e'']"
    by (simp add: eval_defs)
  show ?thesis
    using h r event_chimes_while_ringing [of envUTC nineOClock ringingWithEvent "itemAt9 ''e'' event"]
    unfolding l by simp
qed

section \<open>The candidate of a tick\<close>

lemma triggered_None: "triggered env now as = None \<longleftrightarrow> (\<forall>a\<in>set as. \<not> isCandidate env now a)"
  by (auto simp: triggered_def find_None_iff)

lemma tick2_no_candidate: "triggered env now (alarms s) = None \<Longrightarrow> tick2 env now s = (s, [])"
  by (simp add: tick2_def)

lemma tick2_not_second_0: "getSeconds now \<noteq> 0 \<Longrightarrow> tick2 env now s = (s, [])"
  by (simp add: tick2_def split: option.splits)

text \<open>
  Where the tick's date key is today's date and the host is at or ahead of UTC, the
  candidates of the code are the alarms that are due.
\<close>

lemma isCandidate_isDue: "dateConsistent env now \<Longrightarrow> isCandidate env now a = isDue now a"
  by (simp add: isCandidate_def isDue_def dateConsistent_def isAlarmOnDate_east_of_UTC)

text \<open>What the tick dispatches for its candidate, at second 0 under a fresh key.\<close>

lemma tick2_dispatch_event:
  assumes "triggered env now (alarms s) = Some t" and "itemType t = Some event"
    and "secondKey now \<notin> triggeredItems s" and "getSeconds now = 0" and "audioContextOk env"
  shows "snd (tick2 env now s) =
           [Chime] @ (if canVibrate env then [Vibrate [400]] else [])
                   @ (if notificationGranted env then [Notify (label t)] else [])"
    and "eventNotification (fst (tick2 env now s)) = Some (label t)"
    and "ringingAlarm (fst (tick2 env now s)) = ringingAlarm s"
    and "alarmAudio (fst (tick2 env now s)) = alarmAudio s"
  using assms by (auto simp: handler2_defs Let_def)

lemma tick2_dispatch_alarm:
  assumes "triggered env now (alarms s) = Some t" and "itemType t \<noteq> Some event"
    and "secondKey now \<notin> triggeredItems s" and "getSeconds now = 0" and "ringingAlarm s = None"
  shows "snd (tick2 env now s) =
           (if alarmAudio s = None then [] else [AudioPlay (sa_url (resolveSound env (soundId t)))])
           @ (if canVibrate env then [Vibrate [400, 200, 400]] else [])
           @ (if onLine env then [RequestGreeting t (aiGreetingPrompt env now s)] else [])"
    and "ringingAlarm (fst (tick2 env now s)) = Some t"
    and "eventNotification (fst (tick2 env now s)) = eventNotification s"
  using assms by (auto simp: handler2_defs aiGreetingPrompt_def Let_def)

lemma tick2_dropped_alarm:
  assumes "triggered env now (alarms s) = Some t" and "itemType t \<noteq> Some event"
    and "ringingAlarm s \<noteq> None"
  shows "snd (tick2 env now s) = []"
    and "ringingAlarm (fst (tick2 env now s)) = ringingAlarm s"
    and "eventNotification (fst (tick2 env now s)) = eventNotification s"
  using assms by (auto simp: handler2_defs Let_def)

lemma tick2_records_key:
  assumes "triggered env now (alarms s) = Some t"
    and "secondKey now \<notin> triggeredItems s" and "getSeconds now = 0"
  shows "secondKey now \<in> triggeredItems (fst (tick2 env now s))"
  using assms by (simp add: triggeredItems_tick2)

text \<open>
  Claim C8, as the code has it. A tick dispatches only at second 0, and only for its
  candidate, found by \<^verbatim>\<open>alarms.find\<close>: one alarm at most, enabled and of the current minute;
  a disabled alarm is never the candidate, and without a candidate the tick does nothing.
  At second 0 under a fresh key the tick records the key and dispatches the candidate
  alone: an event chimes (given an audio context), an alarm starts to ring if none rings.
  In a host at or ahead of UTC, at a reading whose UTC date is the local date, the candidate
  is the first alarm in list order that is due (enabled, of the current minute, its
  recurrence rule matching today's date), and there is none exactly when no alarm is due.
\<close>

theorem tick2_candidate:
  "(getSeconds now \<noteq> 0 \<longrightarrow> tick2 env now s = (s, []))
   \<and> (triggered env now (alarms s) = None \<longrightarrow> tick2 env now s = (s, []))
   \<and> (\<not> isEnabled a \<longrightarrow> triggered env now as \<noteq> Some a)
   \<and> (triggered env now as = Some t \<longrightarrow> isEnabled t \<and> time t = currentTimeStr now)
   \<and> (dateConsistent env now
      \<longrightarrow> (triggered env now as = Some t
           \<longrightarrow> isDue now t
               \<and> (\<exists>pre post. as = pre @ t # post \<and> (\<forall>x\<in>set pre. \<not> isDue now x)))
          \<and> (triggered env now as = None \<longleftrightarrow> (\<forall>x\<in>set as. \<not> isDue now x)))
   \<and> (triggered env now (alarms s) = Some t \<and> secondKey now \<notin> triggeredItems s
        \<and> getSeconds now = 0
      \<longrightarrow> secondKey now \<in> triggeredItems (fst (tick2 env now s))
          \<and> (itemType t = Some event \<and> audioContextOk env
             \<longrightarrow> snd (tick2 env now s) =
                   [Chime] @ (if canVibrate env then [Vibrate [400]] else [])
                           @ (if notificationGranted env then [Notify (label t)] else [])
                 \<and> eventNotification (fst (tick2 env now s)) = Some (label t))
          \<and> (itemType t \<noteq> Some event \<and> ringingAlarm s = None
             \<longrightarrow> ringingAlarm (fst (tick2 env now s)) = Some t
                 \<and> snd (tick2 env now s) =
                     (if alarmAudio s = None then []
                      else [AudioPlay (sa_url (resolveSound env (soundId t)))])
                     @ (if canVibrate env then [Vibrate [400, 200, 400]] else [])
                     @ (if onLine env then [RequestGreeting t (aiGreetingPrompt env now s)]
                        else [])))"
proof (intro conjI impI)
  assume t: "triggered env now as = Some t"
  from find_Some_first [OF t [unfolded triggered_def]]
  show "isEnabled t" and "time t = currentTimeStr now"
    by (auto simp: isCandidate_def)
next
  assume d: "\<not> isEnabled a"
  show "triggered env now as \<noteq> Some a"
  proof
    assume "triggered env now as = Some a"
    from find_Some_first [OF this [unfolded triggered_def]] have "isCandidate env now a" by blast
    with d show False by (simp add: isCandidate_def)
  qed
next
  assume c: "dateConsistent env now" and t: "triggered env now as = Some t"
  from find_Some_first [OF t [unfolded triggered_def]]
  obtain pre post where pp: "as = pre @ t # post" "isCandidate env now t"
      "\<forall>x\<in>set pre. \<not> isCandidate env now x"
    by blast
  show "isDue now t"
    using pp(2) c by (simp add: isCandidate_isDue)
  show "\<exists>pre post. as = pre @ t # post \<and> (\<forall>x\<in>set pre. \<not> isDue now x)"
    using pp c by (auto simp: isCandidate_isDue)
next
  assume c: "dateConsistent env now"
  show "triggered env now as = None \<longleftrightarrow> (\<forall>x\<in>set as. \<not> isDue now x)"
    using c by (simp add: triggered_None isCandidate_isDue)
next
  assume h: "triggered env now (alarms s) = Some t \<and> secondKey now \<notin> triggeredItems s
        \<and> getSeconds now = 0"
  then show "secondKey now \<in> triggeredItems (fst (tick2 env now s))"
    by (simp add: tick2_records_key)
  {
    assume e: "itemType t = Some event \<and> audioContextOk env"
    show "snd (tick2 env now s) =
                   [Chime] @ (if canVibrate env then [Vibrate [400]] else [])
                           @ (if notificationGranted env then [Notify (label t)] else [])"
      using h e by (simp add: tick2_dispatch_event)
    show "eventNotification (fst (tick2 env now s)) = Some (label t)"
      using h e by (simp add: tick2_dispatch_event)
  }
  {
    assume al: "itemType t \<noteq> Some event \<and> ringingAlarm s = None"
    show "ringingAlarm (fst (tick2 env now s)) = Some t"
      using h al by (simp add: tick2_dispatch_alarm)
    show "snd (tick2 env now s) =
                     (if alarmAudio s = None then []
                      else [AudioPlay (sa_url (resolveSound env (soundId t)))])
                     @ (if canVibrate env then [Vibrate [400, 200, 400]] else [])
                     @ (if onLine env then [RequestGreeting t (aiGreetingPrompt env now s)]
                        else [])"
      using h al by (simp add: tick2_dispatch_alarm)
  }
qed (simp_all add: tick2_not_second_0 tick2_no_candidate)

theorem tick2_candidate_witness:
  "tick2 envUTC (nineOClock\<lparr>getSeconds := 1\<rparr>) (mounted [itemAt9 ''a'' alarm])
     = (mounted [itemAt9 ''a'' alarm], [])
   \<and> tick2 envUTC nineOClock (mounted [fridays]) = (mounted [fridays], [])
   \<and> triggered envUTC nineOClock [(itemAt9 ''a'' alarm)\<lparr>isEnabled := False\<rparr>]
       \<noteq> Some ((itemAt9 ''a'' alarm)\<lparr>isEnabled := False\<rparr>)
   \<and> triggered envUTC nineOClock [fridays, itemAt9 ''e'' event, itemAt9 ''a'' alarm]
       = Some (itemAt9 ''e'' event)
   \<and> isDue nineOClock (itemAt9 ''e'' event)
   \<and> triggered envUTC nineOClock [fridays] = None
   \<and> secondKey nineOClock
       \<in> triggeredItems (fst (tick2 envUTC nineOClock
            (mounted [fridays, itemAt9 ''e'' event, itemAt9 ''a'' alarm])))
   \<and> snd (tick2 envUTC nineOClock (mounted [fridays, itemAt9 ''e'' event, itemAt9 ''a'' alarm]))
       = [Chime, Vibrate [400], Notify ''e'']
   \<and> ringingAlarm (fst (tick2 envUTC nineOClock (mounted [fridays, itemAt9 ''a'' alarm])))
       = Some (itemAt9 ''a'' alarm)"
proof -
  have s1: "getSeconds (nineOClock\<lparr>getSeconds := 1\<rparr>) \<noteq> 0" by simp
  have dc: "dateConsistent envUTC nineOClock"
    by (simp add: dateConsistent_def msPerDay_def time_defs example_defs)
  have te: "triggered envUTC nineOClock [fridays, itemAt9 ''e'' event, itemAt9 ''a'' alarm]
       = Some (itemAt9 ''e'' event)"
    by (simp add: eval_defs fridays_def)
  have ta: "triggered envUTC nineOClock [fridays, itemAt9 ''a'' alarm] = Some (itemAt9 ''a'' alarm)"
    by (simp add: eval_defs fridays_def)
  have nd: "\<forall>x\<in>set [fridays]. \<not> isDue nineOClock x"
    by (simp add: isDue_def fridays_def time_defs example_defs)
  have d: "\<not> isEnabled ((itemAt9 ''a'' alarm)\<lparr>isEnabled := False\<rparr>)" by simp
  have fresh: "secondKey nineOClock \<notin> triggeredItems (mounted as) \<and> getSeconds nineOClock = 0
      \<and> audioContextOk envUTC \<and> ringingAlarm (mounted as) = None \<and> alarms (mounted as) = as"
    for as
    by (simp add: mounted_def envUTC_def nineOClock_def)
  have ev: "itemType (itemAt9 ''e'' event) = Some event"
    and al: "itemType (itemAt9 ''a'' alarm) \<noteq> Some event"
    by (simp_all add: itemAt9_def)
  have l: "[Chime] @ (if canVibrate envUTC then [Vibrate [400]] else [])
                 @ (if notificationGranted envUTC then [Notify (label (itemAt9 ''e'' event))] else [])
           = [Chime, Vibrate [400], Notify ''e'']"
    by (simp add: eval_defs)
  have c1: "tick2 envUTC (nineOClock\<lparr>getSeconds := 1\<rparr>) (mounted [itemAt9 ''a'' alarm])
     = (mounted [itemAt9 ''a'' alarm], [])"
    using s1 tick2_candidate [of "nineOClock\<lparr>getSeconds := 1\<rparr>" envUTC "mounted [itemAt9 ''a'' alarm]"]
    by blast
  have c3: "triggered envUTC nineOClock [fridays] = None"
    using dc nd tick2_candidate [of nineOClock envUTC "mounted [fridays]" _ "[fridays]"]
    by blast
  have c2: "tick2 envUTC nineOClock (mounted [fridays]) = (mounted [fridays], [])"
    using c3 fresh [of "[fridays]"]
      tick2_candidate [of nineOClock envUTC "mounted [fridays]" _ "[fridays]"]
    by simp
  have c4: "triggered envUTC nineOClock [(itemAt9 ''a'' alarm)\<lparr>isEnabled := False\<rparr>]
       \<noteq> Some ((itemAt9 ''a'' alarm)\<lparr>isEnabled := False\<rparr>)"
    using d tick2_candidate [of nineOClock envUTC "mounted [fridays]"
        "(itemAt9 ''a'' alarm)\<lparr>isEnabled := False\<rparr>" "[(itemAt9 ''a'' alarm)\<lparr>isEnabled := False\<rparr>]"]
    by blast
  have c5: "isDue nineOClock (itemAt9 ''e'' event)"
    using dc te tick2_candidate [of nineOClock envUTC "mounted [fridays]" _
        "[fridays, itemAt9 ''e'' event, itemAt9 ''a'' alarm]" "itemAt9 ''e'' event"]
    by blast
  have c6: "secondKey nineOClock
       \<in> triggeredItems (fst (tick2 envUTC nineOClock
            (mounted [fridays, itemAt9 ''e'' event, itemAt9 ''a'' alarm])))
     \<and> snd (tick2 envUTC nineOClock (mounted [fridays, itemAt9 ''e'' event, itemAt9 ''a'' alarm]))
       = [Chime, Vibrate [400], Notify ''e'']"
    using te ev l fresh [of "[fridays, itemAt9 ''e'' event, itemAt9 ''a'' alarm]"]
      tick2_candidate [of nineOClock envUTC
        "mounted [fridays, itemAt9 ''e'' event, itemAt9 ''a'' alarm]" _ _ "itemAt9 ''e'' event"]
    by simp
  have c7: "ringingAlarm (fst (tick2 envUTC nineOClock (mounted [fridays, itemAt9 ''a'' alarm])))
       = Some (itemAt9 ''a'' alarm)"
    using ta al fresh [of "[fridays, itemAt9 ''a'' alarm]"]
      tick2_candidate [of nineOClock envUTC
        "mounted [fridays, itemAt9 ''a'' alarm]" _ _ "itemAt9 ''a'' alarm"]
    by simp
  show ?thesis using c1 c2 c3 c4 c5 c6 c7 te by blast
qed

text \<open>
  Claim C8 as stated fails: an occurrence is not emitted for every alarm that satisfies the
  three conditions. With two enabled events due at 09:00 on the day, in a host on UTC, the
  tick of 09:00:00 has the first as its candidate and chimes for it alone.
\<close>

theorem tick2_second_match_not_emitted:
  "isDue nineOClock (itemAt9 ''b'' event)
   \<and> isEnabled (itemAt9 ''b'' event) \<and> time (itemAt9 ''b'' event) = currentTimeStr nineOClock
   \<and> isAlarmOnDate (localTZA envUTC) (itemAt9 ''b'' event) (formatDateKey nineOClock)
   \<and> getSeconds nineOClock = 0
   \<and> triggered envUTC nineOClock [itemAt9 ''a'' event, itemAt9 ''b'' event] = Some (itemAt9 ''a'' event)
   \<and> tick2 envUTC nineOClock (mounted [itemAt9 ''a'' event, itemAt9 ''b'' event])
       = ((mounted [itemAt9 ''a'' event, itemAt9 ''b'' event])
            \<lparr>triggeredItems := {''2024-03-01-09:00''}, eventNotification := Some ''a''\<rparr>,
          [Chime, Vibrate [400], Notify ''a''])"
  by (simp add: eval_defs isDue_def matchesSpec_def)

text \<open>
  Outside those hosts and readings the tick's date handling is off: on Friday 1 March 2024
  at 08:00:00 in a host on UTC-5 the alarm of Fridays at 08:00 is due, and the tick has no
  candidate and does nothing (the matcher reads Thursday from the date key).
\<close>

lemma tick2_misses_due_alarm_west_of_UTC:
  "isDue eightNewYork fridays
   \<and> triggered envNewYork eightNewYork [fridays] = None
   \<and> tick2 envNewYork eightNewYork (mounted [fridays]) = (mounted [fridays], [])"
  by (simp add: eval_defs isDue_def matchesSpec_def fridays_def)

section \<open>Several matches in one tick\<close>

text \<open>
  Claim C9, as the code has it. The candidate is computed from the list before anything is
  dispatched, and it is the first match alone. When the alarms matching this date and
  minute are \<open>t\<close> followed by \<open>rest\<close>, at second 0 under a fresh key, the tick dispatches
  \<open>t\<close> and nothing else: if \<open>t\<close> is an event it chimes and the ringing alarm stays; if \<open>t\<close>
  is an alarm and nothing rings it becomes the ringing alarm, with its sound, its vibration
  and its narration request; if an alarm rings already nothing is dispatched. The later
  matches neither ring nor chime; they appear only in the agenda of the narration prompt.
\<close>

theorem tick_dispatches_first_match_only:
  "filter (isCandidate env now) (alarms s) = t # rest \<and> secondKey now \<notin> triggeredItems s
     \<and> getSeconds now = 0
   \<longrightarrow> triggered env now (alarms s) = Some t
       \<and> (itemType t = Some event \<and> audioContextOk env
          \<longrightarrow> snd (tick2 env now s) =
                [Chime] @ (if canVibrate env then [Vibrate [400]] else [])
                        @ (if notificationGranted env then [Notify (label t)] else [])
              \<and> eventNotification (fst (tick2 env now s)) = Some (label t)
              \<and> ringingAlarm (fst (tick2 env now s)) = ringingAlarm s
              \<and> alarmAudio (fst (tick2 env now s)) = alarmAudio s)
       \<and> (itemType t \<noteq> Some event \<and> ringingAlarm s = None
          \<longrightarrow> ringingAlarm (fst (tick2 env now s)) = Some t
              \<and> eventNotification (fst (tick2 env now s)) = eventNotification s
              \<and> snd (tick2 env now s) =
                  (if alarmAudio s = None then []
                   else [AudioPlay (sa_url (resolveSound env (soundId t)))])
                  @ (if canVibrate env then [Vibrate [400, 200, 400]] else [])
                  @ (if onLine env then [RequestGreeting t (aiGreetingPrompt env now s)] else []))
       \<and> (itemType t \<noteq> Some event \<and> ringingAlarm s \<noteq> None
          \<longrightarrow> snd (tick2 env now s) = []
              \<and> ringingAlarm (fst (tick2 env now s)) = ringingAlarm s
              \<and> eventNotification (fst (tick2 env now s)) = eventNotification s)
       \<and> (ringingAlarm s = None
          \<longrightarrow> ringingAlarm (fst (tick1 env now s)) = Some t
              \<and> snd (tick1 env now s) =
                  (if alarmAudio s = None then []
                   else [AudioPlay (sa_url (resolveSound env (soundId t)))])
                  @ (if onLine env then [RequestGreeting t (immediateGreetingPrompt env now s)]
                     else []))
       \<and> (ringingAlarm s \<noteq> None \<longrightarrow> tick1 env now s = (s, []))"
proof (intro impI)
  assume h: "filter (isCandidate env now) (alarms s) = t # rest \<and> secondKey now \<notin> triggeredItems s
     \<and> getSeconds now = 0"
  then have t: "triggered env now (alarms s) = Some t"
    by (simp add: triggered_def find_filter_Cons)
  have k: "secondKey now \<notin> triggeredItems s" and z: "getSeconds now = 0"
    using h by simp_all
  show "triggered env now (alarms s) = Some t
       \<and> (itemType t = Some event \<and> audioContextOk env
          \<longrightarrow> snd (tick2 env now s) =
                [Chime] @ (if canVibrate env then [Vibrate [400]] else [])
                        @ (if notificationGranted env then [Notify (label t)] else [])
              \<and> eventNotification (fst (tick2 env now s)) = Some (label t)
              \<and> ringingAlarm (fst (tick2 env now s)) = ringingAlarm s
              \<and> alarmAudio (fst (tick2 env now s)) = alarmAudio s)
       \<and> (itemType t \<noteq> Some event \<and> ringingAlarm s = None
          \<longrightarrow> ringingAlarm (fst (tick2 env now s)) = Some t
              \<and> eventNotification (fst (tick2 env now s)) = eventNotification s
              \<and> snd (tick2 env now s) =
                  (if alarmAudio s = None then []
                   else [AudioPlay (sa_url (resolveSound env (soundId t)))])
                  @ (if canVibrate env then [Vibrate [400, 200, 400]] else [])
                  @ (if onLine env then [RequestGreeting t (aiGreetingPrompt env now s)] else []))
       \<and> (itemType t \<noteq> Some event \<and> ringingAlarm s \<noteq> None
          \<longrightarrow> snd (tick2 env now s) = []
              \<and> ringingAlarm (fst (tick2 env now s)) = ringingAlarm s
              \<and> eventNotification (fst (tick2 env now s)) = eventNotification s)
       \<and> (ringingAlarm s = None
          \<longrightarrow> ringingAlarm (fst (tick1 env now s)) = Some t
              \<and> snd (tick1 env now s) =
                  (if alarmAudio s = None then []
                   else [AudioPlay (sa_url (resolveSound env (soundId t)))])
                  @ (if onLine env then [RequestGreeting t (immediateGreetingPrompt env now s)]
                     else []))
       \<and> (ringingAlarm s \<noteq> None \<longrightarrow> tick1 env now s = (s, []))"
    using t k z
    by (auto simp: tick2_dispatch_event tick2_dispatch_alarm tick2_dropped_alarm
        tick1_rings_first tick1_while_ringing)
qed

theorem tick_dispatches_first_match_only_witness:
  "triggered envUTC nineOClock [itemAt9 ''a'' alarm, itemAt9 ''e'' event] = Some (itemAt9 ''a'' alarm)
   \<and> ringingAlarm (fst (tick2 envUTC nineOClock (mounted [itemAt9 ''a'' alarm, itemAt9 ''e'' event])))
       = Some (itemAt9 ''a'' alarm)
   \<and> eventNotification (fst (tick2 envUTC nineOClock (mounted [itemAt9 ''a'' alarm, itemAt9 ''e'' event])))
       = None
   \<and> snd (tick2 envUTC nineOClock (mounted [itemAt9 ''a'' alarm, itemAt9 ''e'' event]))
       = [AudioPlay ''https://actions.google.com/sounds/v1/alarms/beep_short.ogg'',
          Vibrate [400, 200, 400],
          RequestGreeting (itemAt9 ''a'' alarm)
            (AiGreetingPrompt ''morning'' [(''e'', ''09:00'')] [(''a'', ''09:00'')] None)]
   \<and> snd (tick1 envUTC nineOClock (mounted [itemAt9 ''a'' alarm, itemAt9 ''e'' event]))
       = [AudioPlay ''https://actions.google.com/sounds/v1/alarms/beep_short.ogg'',
          RequestGreeting (itemAt9 ''a'' alarm)
            (ImmediateGreetingPrompt [(''a'', ''09:00''), (''e'', ''09:00'')] None)]
   \<and> snd (tick2 envUTC nineOClock (mounted [itemAt9 ''e'' event, itemAt9 ''a'' alarm]))
       = [Chime, Vibrate [400], Notify ''e'']
   \<and> ringingAlarm (fst (tick2 envUTC nineOClock (mounted [itemAt9 ''e'' event, itemAt9 ''a'' alarm])))
       = None
   \<and> snd (tick2 envUTC nineOClock (ringingA\<lparr>alarms := [itemAt9 ''b'' alarm, itemAt9 ''e'' event]\<rparr>))
       = []
   \<and> tick1 envUTC nineOClock (ringingA\<lparr>alarms := [itemAt9 ''b'' alarm, itemAt9 ''e'' event]\<rparr>)
       = (ringingA\<lparr>alarms := [itemAt9 ''b'' alarm, itemAt9 ''e'' event]\<rparr>, [])"
proof -
  have ae: "filter (isCandidate envUTC nineOClock)
        (alarms (mounted [itemAt9 ''a'' alarm, itemAt9 ''e'' event]))
        = itemAt9 ''a'' alarm # [itemAt9 ''e'' event]
      \<and> secondKey nineOClock \<notin> triggeredItems (mounted [itemAt9 ''a'' alarm, itemAt9 ''e'' event])
      \<and> getSeconds nineOClock = 0"
    by (simp add: eval_defs)
  have ea: "filter (isCandidate envUTC nineOClock)
        (alarms (mounted [itemAt9 ''e'' event, itemAt9 ''a'' alarm]))
        = itemAt9 ''e'' event # [itemAt9 ''a'' alarm]
      \<and> secondKey nineOClock \<notin> triggeredItems (mounted [itemAt9 ''e'' event, itemAt9 ''a'' alarm])
      \<and> getSeconds nineOClock = 0"
    by (simp add: eval_defs)
  have be: "filter (isCandidate envUTC nineOClock)
        (alarms (ringingA\<lparr>alarms := [itemAt9 ''b'' alarm, itemAt9 ''e'' event]\<rparr>))
        = itemAt9 ''b'' alarm # [itemAt9 ''e'' event]
      \<and> secondKey nineOClock
          \<notin> triggeredItems (ringingA\<lparr>alarms := [itemAt9 ''b'' alarm, itemAt9 ''e'' event]\<rparr>)
      \<and> getSeconds nineOClock = 0"
    by (simp add: ringingA_def eval_defs)
  have kinds: "itemType (itemAt9 ''a'' alarm) \<noteq> Some event"
    "itemType (itemAt9 ''b'' alarm) \<noteq> Some event"
    "itemType (itemAt9 ''e'' event) = Some event \<and> audioContextOk envUTC"
    by (simp_all add: itemAt9_def envUTC_def)
  have idle: "ringingAlarm (mounted as) = None \<and> eventNotification (mounted as) = None
      \<and> alarms (mounted as) = as" for as
    by (simp add: mounted_def)
  have ring: "ringingAlarm (ringingA\<lparr>alarms := [itemAt9 ''b'' alarm, itemAt9 ''e'' event]\<rparr>) \<noteq> None"
    by (simp add: ringingA_def)
  have e2: "(if alarmAudio (mounted [itemAt9 ''a'' alarm, itemAt9 ''e'' event]) = None then []
        else [AudioPlay (sa_url (resolveSound envUTC (soundId (itemAt9 ''a'' alarm))))])
       @ (if canVibrate envUTC then [Vibrate [400, 200, 400]] else [])
       @ (if onLine envUTC
          then [RequestGreeting (itemAt9 ''a'' alarm)
                  (aiGreetingPrompt envUTC nineOClock (mounted [itemAt9 ''a'' alarm, itemAt9 ''e'' event]))]
          else [])
      = [AudioPlay ''https://actions.google.com/sounds/v1/alarms/beep_short.ogg'',
          Vibrate [400, 200, 400],
          RequestGreeting (itemAt9 ''a'' alarm)
            (AiGreetingPrompt ''morning'' [(''e'', ''09:00'')] [(''a'', ''09:00'')] None)]"
    by (simp add: eval_defs)
  have e1: "(if alarmAudio (mounted [itemAt9 ''a'' alarm, itemAt9 ''e'' event]) = None then []
        else [AudioPlay (sa_url (resolveSound envUTC (soundId (itemAt9 ''a'' alarm))))])
       @ (if onLine envUTC
          then [RequestGreeting (itemAt9 ''a'' alarm)
                  (immediateGreetingPrompt envUTC nineOClock
                     (mounted [itemAt9 ''a'' alarm, itemAt9 ''e'' event]))]
          else [])
      = [AudioPlay ''https://actions.google.com/sounds/v1/alarms/beep_short.ogg'',
          RequestGreeting (itemAt9 ''a'' alarm)
            (ImmediateGreetingPrompt [(''a'', ''09:00''), (''e'', ''09:00'')] None)]"
    by (simp add: eval_defs)
  have l: "[Chime] @ (if canVibrate envUTC then [Vibrate [400]] else [])
                 @ (if notificationGranted envUTC then [Notify (label (itemAt9 ''e'' event))] else [])
           = [Chime, Vibrate [400], Notify ''e'']"
    by (simp add: eval_defs)
  have w1: "triggered envUTC nineOClock [itemAt9 ''a'' alarm, itemAt9 ''e'' event] = Some (itemAt9 ''a'' alarm)
   \<and> ringingAlarm (fst (tick2 envUTC nineOClock (mounted [itemAt9 ''a'' alarm, itemAt9 ''e'' event])))
       = Some (itemAt9 ''a'' alarm)
   \<and> eventNotification (fst (tick2 envUTC nineOClock (mounted [itemAt9 ''a'' alarm, itemAt9 ''e'' event])))
       = None
   \<and> snd (tick2 envUTC nineOClock (mounted [itemAt9 ''a'' alarm, itemAt9 ''e'' event]))
       = [AudioPlay ''https://actions.google.com/sounds/v1/alarms/beep_short.ogg'',
          Vibrate [400, 200, 400],
          RequestGreeting (itemAt9 ''a'' alarm)
            (AiGreetingPrompt ''morning'' [(''e'', ''09:00'')] [(''a'', ''09:00'')] None)]
   \<and> snd (tick1 envUTC nineOClock (mounted [itemAt9 ''a'' alarm, itemAt9 ''e'' event]))
       = [AudioPlay ''https://actions.google.com/sounds/v1/alarms/beep_short.ogg'',
          RequestGreeting (itemAt9 ''a'' alarm)
            (ImmediateGreetingPrompt [(''a'', ''09:00''), (''e'', ''09:00'')] None)]"
    using ae kinds(1) idle [of "[itemAt9 ''a'' alarm, itemAt9 ''e'' event]"]
      tick_dispatches_first_match_only [of envUTC nineOClock
        "mounted [itemAt9 ''a'' alarm, itemAt9 ''e'' event]" "itemAt9 ''a'' alarm"
        "[itemAt9 ''e'' event]"]
    unfolding e2 e1 by simp
  have w2: "snd (tick2 envUTC nineOClock (mounted [itemAt9 ''e'' event, itemAt9 ''a'' alarm]))
       = [Chime, Vibrate [400], Notify ''e'']
   \<and> ringingAlarm (fst (tick2 envUTC nineOClock (mounted [itemAt9 ''e'' event, itemAt9 ''a'' alarm])))
       = None"
    using ea kinds(3) idle [of "[itemAt9 ''e'' event, itemAt9 ''a'' alarm]"]
      tick_dispatches_first_match_only [of envUTC nineOClock
        "mounted [itemAt9 ''e'' event, itemAt9 ''a'' alarm]" "itemAt9 ''e'' event"
        "[itemAt9 ''a'' alarm]"]
    unfolding l by simp
  have w3: "snd (tick2 envUTC nineOClock (ringingA\<lparr>alarms := [itemAt9 ''b'' alarm, itemAt9 ''e'' event]\<rparr>))
       = []
   \<and> tick1 envUTC nineOClock (ringingA\<lparr>alarms := [itemAt9 ''b'' alarm, itemAt9 ''e'' event]\<rparr>)
       = (ringingA\<lparr>alarms := [itemAt9 ''b'' alarm, itemAt9 ''e'' event]\<rparr>, [])"
    using be kinds(2) ring
      tick_dispatches_first_match_only [of envUTC nineOClock
        "ringingA\<lparr>alarms := [itemAt9 ''b'' alarm, itemAt9 ''e'' event]\<rparr>" "itemAt9 ''b'' alarm"
        "[itemAt9 ''e'' event]"]
    by simp
  show ?thesis using w1 w2 w3 by simp
qed

text \<open>
  Claim C9 as stated fails: an event that matches the same date and minute as an alarm found
  before it does not chime on that tick. With alarm \<open>a\<close> and event \<open>e\<close> both due at 09:00,
  the tick of 09:00:00 starts the ring of \<open>a\<close> and nothing else; with the event first, the
  event chimes and the alarm does not ring.
\<close>

theorem tick2_event_behind_alarm_silent:
  "isCandidate envUTC nineOClock (itemAt9 ''e'' event)
   \<and> isCandidate envUTC nineOClock (itemAt9 ''a'' alarm)
   \<and> snd (tick2 envUTC nineOClock (mounted [itemAt9 ''a'' alarm, itemAt9 ''e'' event]))
       = [AudioPlay ''https://actions.google.com/sounds/v1/alarms/beep_short.ogg'',
          Vibrate [400, 200, 400],
          RequestGreeting (itemAt9 ''a'' alarm)
            (AiGreetingPrompt ''morning'' [(''e'', ''09:00'')] [(''a'', ''09:00'')] None)]
   \<and> eventNotification (fst (tick2 envUTC nineOClock (mounted [itemAt9 ''a'' alarm, itemAt9 ''e'' event])))
       = None
   \<and> snd (tick2 envUTC nineOClock (mounted [itemAt9 ''e'' event, itemAt9 ''a'' alarm]))
       = [Chime, Vibrate [400], Notify ''e'']
   \<and> ringingAlarm (fst (tick2 envUTC nineOClock (mounted [itemAt9 ''e'' event, itemAt9 ''a'' alarm])))
       = None"
  by (simp add: eval_defs)

section \<open>Narration results\<close>

text \<open>
  In the variant with \<^verbatim>\<open>ringingAlarmRef\<close>, a narration result that arrives when nothing
  rings, or when an alarm of another id rings, is dropped: the state is as before and no
  narration starts. After a dismissal the ref is empty.
\<close>

lemma greetingResolved2_stale:
  assumes "ringingAlarmRef s = None \<or> (\<exists>r. ringingAlarmRef s = Some r \<and> alarmId r \<noteq> alarmId a)"
  shows "fst (greetingResolved2 env a out s) = s"
    and "set (snd (greetingResolved2 env a out s)) \<subseteq> {LogError}"
  using assms by (cases out; auto simp: greetingResolved2_def)+

lemma handleDismissAlarm2_clears:
  "ringingAlarm (fst (handleDismissAlarm2 env s)) = None"
  "ringingAlarmRef (fst (handleDismissAlarm2 env s)) = None"
  "currentAiSource (fst (handleDismissAlarm2 env s)) = None"
  by (simp_all add: handleDismissAlarm2_def stopVibration_def syncRef2_def Let_def)

lemma greetingResolved2_after_dismiss:
  "fst (greetingResolved2 env' a out (fst (handleDismissAlarm2 env s))) = fst (handleDismissAlarm2 env s)"
  "NarrationStart a \<notin> set (snd (greetingResolved2 env' a out (fst (handleDismissAlarm2 env s))))"
  using greetingResolved2_stale [of "fst (handleDismissAlarm2 env s)" a env' out]
  by (auto simp: handleDismissAlarm2_clears)

text \<open>
  Claim C4. A narration result that arrives after the dismissal is discarded and plays
  nothing. The variant with the volume ramp has no such check: the alarm rings at 09:00:00
  and requests its greeting, the user dismisses it, the audio arrives, and the narration
  starts although nothing rings any more.
\<close>

theorem narration_plays_after_dismiss:
  "snd (run step1 dismissedBeforeNarration (mounted [itemAt9 ''a'' alarm]))
     = [AudioPlay ''https://actions.google.com/sounds/v1/alarms/beep_short.ogg'',
        RequestGreeting (itemAt9 ''a'' alarm) (ImmediateGreetingPrompt [(''a'', ''09:00'')] None),
        NarrationStart (itemAt9 ''a'' alarm)]
   \<and> ringingAlarm (fst (run step1 dismissedBeforeNarration (mounted [itemAt9 ''a'' alarm]))) = None
   \<and> currentAiSource (fst (run step1 dismissedBeforeNarration (mounted [itemAt9 ''a'' alarm])))
       = Some (itemAt9 ''a'' alarm)
   \<and> NarrationStart (itemAt9 ''a'' alarm)
       \<notin> set (snd (run step2 dismissedBeforeNarration (mounted [itemAt9 ''a'' alarm])))"
  by (simp add: dismissedBeforeNarration_def eval_defs Let_def)

text \<open>
  Claim C5, as the code has it. No failed narration reaches the state machine. A rejected
  request is caught and logged. A response without audio data is dropped without a log.
  Audio that cannot be decoded is caught and logged (in the variant with events only if
  its alarm still rings; otherwise the result was dropped before). In the variant with
  events the state is untouched in every case; in the variant with the volume ramp the
  \<^verbatim>\<open>catch\<close> also sets the volume of the alarm sound to 0.8 and touches nothing else.
\<close>

theorem narration_failure_contained:
  "isFailure out
   \<longrightarrow> fst (greetingResolved2 env a out s) = s
       \<and> snd (greetingResolved2 env a out s) =
           (if out = NoAudioData
               \<or> (out = DecodeFailed \<and> \<not> (\<exists>r. ringingAlarmRef s = Some r \<and> alarmId r = alarmId a))
            then [] else [LogError])
       \<and> greetingResolved1 env a out s =
           (if out = NoAudioData then (s, [])
            else (s\<lparr>alarmAudio := map_option (\<lambda>el. el\<lparr>volume := 8 / 10\<rparr>) (alarmAudio s)\<rparr>,
                  [LogError]))"
  by (cases out)
    (auto simp: isFailure_def greetingResolved2_def greetingResolved1_def split: option.splits)

theorem narration_failure_contained_witness:
  "fst (greetingResolved2 envUTC (itemAt9 ''a'' alarm) TtsRejected ringingA) = ringingA
   \<and> snd (greetingResolved2 envUTC (itemAt9 ''a'' alarm) TtsRejected ringingA) = [LogError]
   \<and> snd (greetingResolved1 envUTC (itemAt9 ''a'' alarm) TtsRejected ringingA) = [LogError]
   \<and> ringingAlarm (fst (greetingResolved1 envUTC (itemAt9 ''a'' alarm) TtsRejected ringingA))
       = Some (itemAt9 ''a'' alarm)
   \<and> greetingResolved2 envUTC (itemAt9 ''a'' alarm) NoAudioData ringingA = (ringingA, [])
   \<and> greetingResolved1 envUTC (itemAt9 ''a'' alarm) NoAudioData ringingA = (ringingA, [])
   \<and> greetingResolved2 envUTC (itemAt9 ''a'' alarm) DecodeFailed ringingA = (ringingA, [LogError])
   \<and> greetingResolved2 envUTC (itemAt9 ''b'' alarm) DecodeFailed ringingA = (ringingA, [])"
proof -
  have f: "isFailure TtsRejected" "isFailure NoAudioData" "isFailure DecodeFailed"
    by (simp_all add: isFailure_def)
  have r: "ringingAlarm ringingA = Some (itemAt9 ''a'' alarm)"
    "ringingAlarmRef ringingA = Some (itemAt9 ''a'' alarm)"
    "alarmId (itemAt9 ''a'' alarm) \<noteq> alarmId (itemAt9 ''b'' alarm)"
    by (simp_all add: ringingA_def itemAt9_def)
  show ?thesis
    using f r
      narration_failure_contained [of TtsRejected envUTC "itemAt9 ''a'' alarm" ringingA]
      narration_failure_contained [of NoAudioData envUTC "itemAt9 ''a'' alarm" ringingA]
      narration_failure_contained [of DecodeFailed envUTC "itemAt9 ''a'' alarm" ringingA]
      narration_failure_contained [of DecodeFailed envUTC "itemAt9 ''b'' alarm" ringingA]
    by (simp add: prod_eq_iff)
qed

text \<open>
  Claim C5 as stated fails twice. In the variant with the ramp, the alarm that started
  online at volume 0.05 is at volume 0.8 after a rejected speech request, not at the volume
  it had. And in both variants a response without audio data is not logged.
\<close>

theorem narration_failure_not_as_claimed:
  "map_option volume (alarmAudio (fst (tick1 envUTC nineOClock (mounted [itemAt9 ''a'' alarm]))))
     = Some (5 / 100)
   \<and> map_option volume
       (alarmAudio
         (fst (greetingResolved1 envUTC (itemAt9 ''a'' alarm) TtsRejected
           (fst (tick1 envUTC nineOClock (mounted [itemAt9 ''a'' alarm]))))))
     = Some (8 / 10)
   \<and> isFailure NoAudioData
   \<and> snd (greetingResolved1 envUTC (itemAt9 ''a'' alarm) NoAudioData
           (fst (tick1 envUTC nineOClock (mounted [itemAt9 ''a'' alarm])))) = []
   \<and> snd (greetingResolved2 envUTC (itemAt9 ''a'' alarm) NoAudioData
           (fst (tick2 envUTC nineOClock (mounted [itemAt9 ''a'' alarm])))) = []"
  by (simp add: eval_defs isFailure_def Let_def)

section \<open>The volume ramp\<close>

lemma rampSeq_Suc: "rampSeq v (Suc n) = rampStep (rampSeq v n)"
  by (simp add: rampSeq_def)

lemma rampSeq_closed:
  assumes "0 \<le> v" and "v \<le> 1"
  shows "rampSeq v n = min 1 (v * (13 / 10) ^ n)"
proof (induction n)
  case 0
  then show ?case using assms by (simp add: rampSeq_def)
next
  case (Suc n)
  have grow: "v * (13 / 10) ^ n \<le> v * (13 / 10) ^ Suc n"
    using assms(1) by (simp add: mult_left_mono)
  show ?case
  proof (cases "v * (13 / 10) ^ n < 1")
    case True
    then show ?thesis by (simp add: rampSeq_Suc Suc.IH rampStep_def mult.assoc)
  next
    case False
    then show ?thesis using grow by (simp add: rampSeq_Suc Suc.IH rampStep_def)
  qed
qed

lemma rampSeq_mono:
  assumes "0 \<le> v" and "v \<le> 1"
  shows "rampSeq v n \<le> rampSeq v (Suc n)"
proof -
  have "v * (13 / 10) ^ n \<le> v * (13 / 10) ^ Suc n"
    using assms(1) by (simp add: mult_left_mono)
  then show ?thesis by (simp add: rampSeq_closed [OF assms] min_def)
qed

lemma rampSeq_le_1: "0 \<le> v \<Longrightarrow> v \<le> 1 \<Longrightarrow> rampSeq v n \<le> 1"
  by (simp add: rampSeq_closed)

lemma rampSeq_reaches:
  assumes "0 < v" and "v \<le> 1" and "1 \<le> v * (13 / 10) ^ N" and "N \<le> n"
  shows "rampSeq v n = 1"
proof -
  have "(13 / 10 :: real) ^ N \<le> (13 / 10) ^ n"
    using assms(4) by (simp add: power_increasing)
  then have "v * (13 / 10) ^ N \<le> v * (13 / 10) ^ n"
    using assms(1) by (simp add: mult_left_mono)
  with assms(3) have "1 \<le> v * (13 / 10) ^ n" by linarith
  then show ?thesis using assms(1,2) by (simp add: rampSeq_closed)
qed

lemma rampSeq_within_12:
  assumes "1 / 20 \<le> v" and "v \<le> 1" and "12 \<le> n"
  shows "rampSeq v n = 1"
proof -
  have "(20 :: real) \<le> (13 / 10) ^ 12" by (simp add: power_numeral_reduce)
  then have "1 \<le> (1 / 20) * (13 / 10 :: real) ^ 12" by simp
  also have "\<dots> \<le> v * (13 / 10) ^ 12"
    using assms(1) by (simp add: mult_right_mono)
  finally have "1 \<le> v * (13 / 10) ^ 12" .
  then show ?thesis using rampSeq_reaches [of v 12 n] assms by simp
qed

text \<open>In the component, \<open>n\<close> ramp intervals move the alarm sound \<open>n\<close> steps along the sequence.\<close>

lemma run_rampTicks:
  assumes "rampInterval s" and "alarmAudio s = Some el"
  shows "fst (run step1 (replicate n (env, RampTick)) s)
           = s\<lparr>alarmAudio := Some (el\<lparr>volume := rampSeq (volume el) n\<rparr>)\<rparr>"
  using assms
proof (induction n arbitrary: s el)
  case 0
  then show ?case by (simp add: rampSeq_def)
next
  case (Suc n)
  have "fst (run step1 (replicate (Suc n) (env, RampTick)) s)
      = fst (run step1 (replicate n (env, RampTick)) (rampTick1 s))"
    by (simp add: fst_run_Cons del: run.simps)
  also have "\<dots> = (rampTick1 s)\<lparr>alarmAudio := Some ((el\<lparr>volume := rampStep (volume el)\<rparr>)
        \<lparr>volume := rampSeq (volume (el\<lparr>volume := rampStep (volume el)\<rparr>)) n\<rparr>)\<rparr>"
    using Suc.prems by (intro Suc.IH) (simp_all add: rampTick1_def)
  also have "\<dots> = s\<lparr>alarmAudio := Some (el\<lparr>volume := rampSeq (volume el) (Suc n)\<rparr>)\<rparr>"
    using Suc.prems by (simp add: rampTick1_def rampSeq_def funpow_swap1)
  finally show ?case .
qed

lemma volume_after_rampTicks:
  assumes "rampInterval s" and "alarmAudio s = Some el" and "0 \<le> volume el" and "volume el \<le> 1"
  shows "map_option volume (alarmAudio (fst (run step1 (replicate n (env, RampTick)) s)))
           = Some (min 1 (volume el * (13 / 10) ^ n))"
  using assms by (simp add: run_rampTicks rampSeq_closed)

text \<open>The tick that starts the ring sets the start volume and the ramp interval.\<close>

lemma tick1_starts_ramp:
  assumes "triggered env now (alarms s) = Some t" and "secondKey now \<notin> triggeredItems s"
    and "getSeconds now = 0" and "ringingAlarm s = None" and "alarmAudio s = Some el"
  shows "rampInterval (fst (tick1 env now s))"
    and "\<exists>el'. alarmAudio (fst (tick1 env now s)) = Some el'
           \<and> volume el' = initialVolume (onLine env)"
  using assms by (auto simp: handler1_defs find_isCandidate1 Let_def)

lemma volume_after_ring_start:
  assumes "triggered env now (alarms s) = Some t" and "secondKey now \<notin> triggeredItems s"
    and "getSeconds now = 0" and "ringingAlarm s = None" and "alarmAudio s = Some el"
  shows "map_option volume
           (alarmAudio (fst (run step1 ((env, Tick now) # replicate n (env', RampTick)) s)))
         = Some (min 1 (initialVolume (onLine env) * (13 / 10) ^ n))"
proof -
  obtain el' where el': "alarmAudio (fst (tick1 env now s)) = Some el'"
      "volume el' = initialVolume (onLine env)"
    using tick1_starts_ramp(2) [OF assms] by blast
  have b: "0 \<le> volume el'" "volume el' \<le> 1"
    using el'(2) by (simp_all add: initialVolume_def)
  have "fst (run step1 ((env, Tick now) # replicate n (env', RampTick)) s)
      = fst (run step1 (replicate n (env', RampTick)) (fst (tick1 env now s)))"
    by (simp add: fst_run_Cons del: run.simps)
  then show ?thesis
    using volume_after_rampTicks [OF tick1_starts_ramp(1) [OF assms] el'(1) b, of n env'] el'(2)
    by simp
qed

text \<open>
  One step of the ramp grows the volume by the factor 1.3 up to the cap. The bounds with the
  factors 1.29 and 1.31 are what remains true when each product is rounded.
\<close>

lemma rampStep_bounds:
  assumes "0 \<le> v" and "v \<le> 1"
  shows "min 1 (v * (129 / 100)) \<le> rampStep v"
    and "rampStep v \<le> min 1 (v * (131 / 100))"
    and "v \<le> rampStep v"
    and "rampStep v \<le> 1"
proof -
  have a: "v * (129 / 100) \<le> v * (13 / 10)" and b: "v * (13 / 10) \<le> v * (131 / 100)"
    and c: "v \<le> v * (13 / 10)"
    using assms(1) by simp_all
  show "min 1 (v * (129 / 100)) \<le> rampStep v"
    using a assms by (simp add: rampStep_def min_def)
  show "rampStep v \<le> min 1 (v * (131 / 100))"
    using b assms by (simp add: rampStep_def min_def)
  show "v \<le> rampStep v"
    using c assms by (simp add: rampStep_def min_def)
  show "rampStep v \<le> 1"
    using assms by (simp add: rampStep_def min_def)
qed

lemma rampSeq_ge_start:
  assumes "1 / 20 \<le> v" and "v \<le> 1"
  shows "1 / 20 \<le> rampSeq v n"
proof -
  have "(1 :: real) \<le> (13 / 10) ^ n" by (simp add: one_le_power)
  then have "v * 1 \<le> v * (13 / 10) ^ n"
    using assms(1) by (intro mult_left_mono) simp_all
  then have "1 / 20 \<le> v * (13 / 10) ^ n"
    using assms(1) by linarith
  moreover have "rampSeq v n = min 1 (v * (13 / 10) ^ n)"
    using assms by (intro rampSeq_closed) simp_all
  ultimately show ?thesis by (simp add: min_def)
qed

text \<open>
  The volumes of two successive ramp intervals, from a state in which the ramp runs at a
  volume between 0.05 and 1.
\<close>

lemma successive_intervals:
  assumes "rampInterval s" and "alarmAudio s = Some el"
    and "1 / 20 \<le> volume el" and "volume el \<le> 1"
  shows "\<exists>v w.
      map_option volume (alarmAudio (fst (run step1 (replicate n (env', RampTick)) s))) = Some v
      \<and> map_option volume (alarmAudio (fst (run step1 (replicate (Suc n) (env', RampTick)) s)))
          = Some w
      \<and> 1 / 20 \<le> v \<and> min 1 (v * (129 / 100)) \<le> w \<and> w \<le> min 1 (v * (131 / 100))
      \<and> v \<le> w \<and> w \<le> 1 \<and> (12 \<le> n \<longrightarrow> v = 1)"
proof -
  let ?v = "rampSeq (volume el) n"
  have v0: "0 \<le> volume el" using assms(3) by simp
  have b: "0 \<le> ?v" "?v \<le> 1" "1 / 20 \<le> ?v"
    using rampSeq_ge_start [OF assms(3,4), of n] rampSeq_le_1 [OF v0 assms(4), of n] by simp_all
  have vn: "map_option volume (alarmAudio (fst (run step1 (replicate n (env', RampTick)) s)))
      = Some ?v"
    by (simp add: run_rampTicks [OF assms(1,2)])
  have vs: "map_option volume
      (alarmAudio (fst (run step1 (replicate (Suc n) (env', RampTick)) s))) = Some (rampStep ?v)"
    by (simp only: run_rampTicks [OF assms(1,2)] rampSeq_Suc) simp
  have top: "12 \<le> n \<longrightarrow> ?v = 1"
    using rampSeq_within_12 [OF assms(3,4)] by simp
  show ?thesis
    apply (rule exI [of _ ?v])
    apply (rule exI [of _ "rampStep ?v"])
    apply (intro conjI)
           apply (rule vn)
          apply (rule vs)
         apply (rule b(3))
        apply (rule rampStep_bounds(1) [OF b(1,2)])
       apply (rule rampStep_bounds(2) [OF b(1,2)])
      apply (rule rampStep_bounds(3) [OF b(1,2)])
     apply (rule rampStep_bounds(4) [OF b(1,2)])
    apply (rule top)
    done
qed

text \<open>
  Claim C7, as the code has it. The start volume is lower when the host is online (0.05)
  than when it is not (0.2). When the tick starts a ring (audio element mounted), the
  volume of the alarm sound is the start volume, and as long as only ramp intervals follow,
  each interval grows it by the factor 1.3, capped at 1: the volumes at successive intervals
  are non-decreasing and at most 1, each is the one before times a factor between 1.29 and
  1.31 or the cap, and from the twelfth interval on the volume is 1. The same holds of the
  ramp intervals that follow any state in which the ramp runs at a volume between 0.05 and
  1, as after a narration result has set the volume.
\<close>

theorem volume_ramp:
  "initialVolume True < initialVolume False
   \<and> (triggered env now (alarms s) = Some t \<and> secondKey now \<notin> triggeredItems s
        \<and> getSeconds now = 0 \<and> ringingAlarm s = None \<and> alarmAudio s = Some el
      \<longrightarrow> map_option volume (alarmAudio (fst (tick1 env now s)))
            = Some (initialVolume (onLine env))
          \<and> rampInterval (fst (tick1 env now s))
          \<and> (\<exists>v w.
              map_option volume
                (alarmAudio (fst (run step1 ((env, Tick now) # replicate n (env', RampTick)) s)))
                = Some v
              \<and> map_option volume
                  (alarmAudio
                    (fst (run step1 ((env, Tick now) # replicate (Suc n) (env', RampTick)) s)))
                = Some w
              \<and> 1 / 20 \<le> v \<and> min 1 (v * (129 / 100)) \<le> w \<and> w \<le> min 1 (v * (131 / 100))
              \<and> v \<le> w \<and> w \<le> 1 \<and> (12 \<le> n \<longrightarrow> v = 1)))
   \<and> (rampInterval s \<and> alarmAudio s = Some el \<and> 1 / 20 \<le> volume el \<and> volume el \<le> 1
      \<longrightarrow> (\<exists>v w.
            map_option volume (alarmAudio (fst (run step1 (replicate n (env', RampTick)) s)))
              = Some v
            \<and> map_option volume
                (alarmAudio (fst (run step1 (replicate (Suc n) (env', RampTick)) s)))
              = Some w
            \<and> 1 / 20 \<le> v \<and> min 1 (v * (129 / 100)) \<le> w \<and> w \<le> min 1 (v * (131 / 100))
            \<and> v \<le> w \<and> w \<le> 1 \<and> (12 \<le> n \<longrightarrow> v = 1)))"
proof (intro conjI impI)
  show "initialVolume True < initialVolume False"
    by (simp add: initialVolume_def)
next
  assume h: "triggered env now (alarms s) = Some t \<and> secondKey now \<notin> triggeredItems s
        \<and> getSeconds now = 0 \<and> ringingAlarm s = None \<and> alarmAudio s = Some el"
  then have hs: "triggered env now (alarms s) = Some t" "secondKey now \<notin> triggeredItems s"
      "getSeconds now = 0" "ringingAlarm s = None" "alarmAudio s = Some el"
    by simp_all
  obtain el' where el': "alarmAudio (fst (tick1 env now s)) = Some el'"
      "volume el' = initialVolume (onLine env)"
    using tick1_starts_ramp(2) [OF hs] by blast
  have b: "1 / 20 \<le> volume el'" "volume el' \<le> 1"
    using el'(2) by (simp_all add: initialVolume_def)
  show "map_option volume (alarmAudio (fst (tick1 env now s))) = Some (initialVolume (onLine env))"
    using el' by simp
  show "rampInterval (fst (tick1 env now s))"
    by (rule tick1_starts_ramp(1) [OF hs])
  have r: "fst (run step1 ((env, Tick now) # replicate k (env', RampTick)) s)
      = fst (run step1 (replicate k (env', RampTick)) (fst (tick1 env now s)))" for k
    by (simp add: fst_run_Cons del: run.simps replicate.simps)
  show "\<exists>v w.
              map_option volume
                (alarmAudio (fst (run step1 ((env, Tick now) # replicate n (env', RampTick)) s)))
                = Some v
              \<and> map_option volume
                  (alarmAudio
                    (fst (run step1 ((env, Tick now) # replicate (Suc n) (env', RampTick)) s)))
                = Some w
              \<and> 1 / 20 \<le> v \<and> min 1 (v * (129 / 100)) \<le> w \<and> w \<le> min 1 (v * (131 / 100))
              \<and> v \<le> w \<and> w \<le> 1 \<and> (12 \<le> n \<longrightarrow> v = 1)"
    unfolding r
    by (rule successive_intervals [OF tick1_starts_ramp(1) [OF hs] el'(1) b])
next
  assume h: "rampInterval s \<and> alarmAudio s = Some el \<and> 1 / 20 \<le> volume el \<and> volume el \<le> 1"
  then have hs: "rampInterval s" "alarmAudio s = Some el" "1 / 20 \<le> volume el" "volume el \<le> 1"
    by blast+
  show "\<exists>v w.
            map_option volume (alarmAudio (fst (run step1 (replicate n (env', RampTick)) s)))
              = Some v
            \<and> map_option volume
                (alarmAudio (fst (run step1 (replicate (Suc n) (env', RampTick)) s)))
              = Some w
            \<and> 1 / 20 \<le> v \<and> min 1 (v * (129 / 100)) \<le> w \<and> w \<le> min 1 (v * (131 / 100))
            \<and> v \<le> w \<and> w \<le> 1 \<and> (12 \<le> n \<longrightarrow> v = 1)"
    by (rule successive_intervals [OF hs])
qed

theorem volume_ramp_witness:
  "map_option volume (alarmAudio (fst (tick1 envUTC nineOClock (mounted [itemAt9 ''a'' alarm]))))
     = Some (5 / 100)
   \<and> rampInterval (fst (tick1 envUTC nineOClock (mounted [itemAt9 ''a'' alarm])))
   \<and> map_option volume
       (alarmAudio (fst (run step1 ((envUTC, Tick nineOClock) # replicate 12 (envUTC, RampTick))
          (mounted [itemAt9 ''a'' alarm]))))
     = Some 1
   \<and> map_option volume
       (alarmAudio (fst (run step1 (replicate 12 (envUTC, RampTick))
          (fst (tick1 envUTC nineOClock (mounted [itemAt9 ''a'' alarm]))))))
     = Some 1"
proof -
  have h: "triggered envUTC nineOClock (alarms (mounted [itemAt9 ''a'' alarm]))
        = Some (itemAt9 ''a'' alarm)
      \<and> secondKey nineOClock \<notin> triggeredItems (mounted [itemAt9 ''a'' alarm])
      \<and> getSeconds nineOClock = 0 \<and> ringingAlarm (mounted [itemAt9 ''a'' alarm]) = None
      \<and> alarmAudio (mounted [itemAt9 ''a'' alarm])
          = Some \<lparr>src = [], loop = False, paused = True, volume = 1\<rparr>"
    by (simp add: eval_defs)
  have o: "initialVolume (onLine envUTC) = 5 / 100"
    by (simp add: initialVolume_def envUTC_def)
  note start = volume_ramp [of envUTC nineOClock "mounted [itemAt9 ''a'' alarm]"
      "itemAt9 ''a'' alarm" "\<lparr>src = [], loop = False, paused = True, volume = 1\<rparr>" _ envUTC,
      THEN conjunct2, THEN conjunct1, rule_format, OF h]
  have a0: "map_option volume (alarmAudio (fst (tick1 envUTC nineOClock (mounted [itemAt9 ''a'' alarm]))))
     = Some (5 / 100)"
    using start [of 0, THEN conjunct1] by (simp only: o)
  have ri: "rampInterval (fst (tick1 envUTC nineOClock (mounted [itemAt9 ''a'' alarm])))"
    using start [of 0, THEN conjunct2, THEN conjunct1] .
  from a0 obtain el' where el': "alarmAudio (fst (tick1 envUTC nineOClock (mounted [itemAt9 ''a'' alarm])))
      = Some el'" "volume el' = 5 / 100"
    by auto
  have v: "1 / 20 \<le> volume el' \<and> volume el' \<le> 1"
    using el'(2) by simp
  note resume = volume_ramp [of envUTC nineOClock
      "fst (tick1 envUTC nineOClock (mounted [itemAt9 ''a'' alarm]))" "itemAt9 ''a'' alarm"
      el' _ envUTC,
      THEN conjunct2, THEN conjunct2, rule_format, OF conjI [OF ri conjI [OF el'(1) v]]]
  from start [of 12, THEN conjunct2, THEN conjunct2] obtain v12 where
      "map_option volume
         (alarmAudio (fst (run step1 ((envUTC, Tick nineOClock) # replicate 12 (envUTC, RampTick))
            (mounted [itemAt9 ''a'' alarm]))))
       = Some v12"
      and "12 \<le> (12 :: nat) \<longrightarrow> v12 = 1"
    by (elim exE conjE) (rule that; assumption)
  then have a12: "map_option volume
     (alarmAudio (fst (run step1 ((envUTC, Tick nineOClock) # replicate 12 (envUTC, RampTick))
        (mounted [itemAt9 ''a'' alarm]))))
     = Some 1"
    by simp
  from resume [of 12] obtain u12 where
      "map_option volume
         (alarmAudio (fst (run step1 (replicate 12 (envUTC, RampTick))
            (fst (tick1 envUTC nineOClock (mounted [itemAt9 ''a'' alarm]))))))
       = Some u12"
      and "12 \<le> (12 :: nat) \<longrightarrow> u12 = 1"
    by (elim exE conjE) (rule that; assumption)
  then have b12: "map_option volume
       (alarmAudio (fst (run step1 (replicate 12 (envUTC, RampTick))
          (fst (tick1 envUTC nineOClock (mounted [itemAt9 ''a'' alarm]))))))
     = Some 1"
    by simp
  show ?thesis using a0 ri a12 b12 by (intro conjI)
qed

text \<open>
  Claim C7 as stated fails for the volumes of the component: a narration result lowers the
  volume in the middle of the ramp. After the ring has started online and five intervals
  have passed the volume is 0.1856465; the narration arrives and sets it to 0.1, and after
  the sixth interval it is 0.13.
\<close>

theorem volume_drops_when_narration_arrives:
  "map_option volume (alarmAudio (fst (run step1 fiveIntervals (mounted [itemAt9 ''a'' alarm]))))
     = Some (371293 / 2000000)
   \<and> map_option volume
       (alarmAudio (fst (run step1 narrationThenSixth (mounted [itemAt9 ''a'' alarm]))))
     = Some (13 / 100)
   \<and> (13 / 100 :: real) < 371293 / 2000000"
  by (simp add: fiveIntervals_def narrationThenSixth_def eval_defs rampStep_def Let_def)

section \<open>The editor's save operation: properties\<close>

text \<open>
  Claim C10. A record saved by the editor never carries both specific dates and a date
  range. In the modal with events, when a range is in use or the item is an event the
  specific dates are undefined and the range is set, otherwise the range is undefined and the
  specific dates are set; the older modal does the same on \<^verbatim>\<open>useRange\<close> alone. The repeat days
  are saved whenever any is chosen, whichever of the two is set.
\<close>

theorem handleSave_one_of_dates_or_range:
  "(specificDates (handleSaveTyped m initialDate) = None
      \<or> dateRange (handleSaveTyped m initialDate) = None)
   \<and> (m_type m = event \<or> useRange m
      \<longrightarrow> specificDates (handleSaveTyped m initialDate) = None
          \<and> dateRange (handleSaveTyped m initialDate) \<noteq> None)
   \<and> (\<not> (m_type m = event \<or> useRange m)
      \<longrightarrow> dateRange (handleSaveTyped m initialDate) = None
          \<and> specificDates (handleSaveTyped m initialDate) = Some (m_specificDates m))
   \<and> repeatDays (handleSaveTyped m initialDate)
       = (if m_repeatDays m = [] then None else Some (m_repeatDays m))
   \<and> (specificDates (handleSave m) = None \<or> dateRange (handleSave m) = None)
   \<and> (useRange m
      \<longrightarrow> specificDates (handleSave m) = None
          \<and> dateRange (handleSave m) = Some \<lparr>dr_from = rangeFrom m, dr_to = rangeTo m\<rparr>)
   \<and> (\<not> useRange m
      \<longrightarrow> dateRange (handleSave m) = None
          \<and> specificDates (handleSave m) = Some (m_specificDates m))
   \<and> repeatDays (handleSave m) = (if m_repeatDays m = [] then None else Some (m_repeatDays m))"
  by (simp add: handleSaveTyped_def handleSave_def finalUseRange_def)

theorem handleSave_one_of_dates_or_range_witness:
  "specificDates (handleSaveTyped exampleForm None) = Some [''2024-03-01'']
   \<and> dateRange (handleSaveTyped exampleForm None) = None
   \<and> repeatDays (handleSaveTyped exampleForm None) = Some [1, 3]
   \<and> specificDates (handleSaveTyped (exampleForm\<lparr>m_type := event\<rparr>) None) = None
   \<and> dateRange (handleSaveTyped (exampleForm\<lparr>m_type := event\<rparr>) None)
       = Some \<lparr>dr_from = ''2024-03-01'', dr_to = ''2024-03-01''\<rparr>
   \<and> repeatDays (handleSaveTyped (exampleForm\<lparr>m_type := event\<rparr>) None) = Some [1, 3]
   \<and> specificDates (handleSave (exampleForm\<lparr>useRange := True\<rparr>)) = None
   \<and> dateRange (handleSave (exampleForm\<lparr>useRange := True\<rparr>))
       = Some \<lparr>dr_from = ''2024-03-01'', dr_to = []\<rparr>
   \<and> dateRange (handleSave exampleForm) = None
   \<and> specificDates (handleSave exampleForm) = Some [''2024-03-01'']"
proof -
  have a: "\<not> (m_type exampleForm = event \<or> useRange exampleForm)"
    and e: "m_type (exampleForm\<lparr>m_type := event\<rparr>) = event \<or> useRange (exampleForm\<lparr>m_type := event\<rparr>)"
    and u: "useRange (exampleForm\<lparr>useRange := True\<rparr>)"
    and n: "\<not> useRange exampleForm"
    by (simp_all add: exampleForm_def)
  have v: "m_specificDates exampleForm = [''2024-03-01'']" "m_repeatDays exampleForm = [1, 3]"
    "rangeFrom exampleForm = ''2024-03-01''" "rangeTo exampleForm = []"
    by (simp_all add: exampleForm_def)
  have d: "dateRange (handleSaveTyped (exampleForm\<lparr>m_type := event\<rparr>) None)
       = Some \<lparr>dr_from = ''2024-03-01'', dr_to = ''2024-03-01''\<rparr>"
    by (simp add: handleSaveTyped_def finalUseRange_def orElse_def orUndefined_def exampleForm_def)
  show ?thesis
    using a e u n d
      handleSave_one_of_dates_or_range [of exampleForm None]
      handleSave_one_of_dates_or_range [of "exampleForm\<lparr>m_type := event\<rparr>" None]
      handleSave_one_of_dates_or_range [of "exampleForm\<lparr>useRange := True\<rparr>" None]
    by (simp add: v)
qed

end
